theory Spec2Isabelle
  imports Complex_Main
begin

section \<open>The ledger store\<close>

text \<open>
  The store is the SQLite database behind the SQLAlchemy models of
  \<^verbatim>\<open>ledgerly/models\<close>. A table is the list of its rows in rowid order. The columns
  declared \<^verbatim>\<open>Float\<close> are modelled as real numbers (rounding is left out), a
  \<^verbatim>\<open>Date\<close> is the ordinal of its day, so that \<^verbatim>\<open>date - timedelta(days=7)\<close> is
  a subtraction of integers.
\<close>

type_synonym date = int

record sale =
  sale_id :: nat
  sale_item :: string
  sale_qty :: real
  sale_unit_price :: real
  sale_total :: real
  sale_customer :: string
  sale_date :: date

record stock =
  stock_id :: nat
  stock_item :: string
  stock_qty :: real
  stock_threshold :: real
  stock_unit_cost :: real
  stock_last_updated :: date

record store =
  sales :: "sale list"
  stocks :: "stock list"

text \<open>
  An \<^verbatim>\<open>INTEGER PRIMARY KEY\<close> column left unset gets one more than the largest key
  of the table, and 1 in an empty table.
\<close>

definition next_id :: "nat list \<Rightarrow> nat" where
  "next_id ids = Suc (fold max ids 0)"

text \<open>
  The constraints of the schema on the stock table: \<^verbatim>\<open>id\<close> is the primary key and
  \<^verbatim>\<open>item\<close> is declared \<^verbatim>\<open>unique=True\<close>.
\<close>

definition stock_table_ok :: "store \<Rightarrow> bool" where
  "stock_table_ok db =
     (distinct (map stock_id (stocks db)) \<and> distinct (map stock_item (stocks db)))"

subsection \<open>Sessions\<close>

text \<open>
  A SQLAlchemy session works inside one transaction: statements change the working
  copy, \<^verbatim>\<open>commit\<close> makes the working copy the committed store, \<^verbatim>\<open>rollback\<close>
  throws the working copy away. Each statement sent to the database may raise; which
  ones do is the argument \<open>fails\<close> of every operation below.
\<close>

datatype db_step = Insert_Sale | Select_Stock | Update_Stock | Insert_Stock | Commit

datatype db_error = DB_Error db_step

record session =
  committed :: store
  working :: store

definition open_session :: "store \<Rightarrow> session" where
  "open_session db = \<lparr>committed = db, working = db\<rparr>"

definition execute :: "(db_step \<Rightarrow> bool) \<Rightarrow> db_step \<Rightarrow> (store \<Rightarrow> store) \<Rightarrow> session
    \<Rightarrow> (db_error + unit) \<times> session" where
  "execute fails step change s =
     (if fails step then (Inl (DB_Error step), s)
      else (Inr (), s\<lparr>working := change (working s)\<rparr>))"

definition session_commit :: "(db_step \<Rightarrow> bool) \<Rightarrow> session \<Rightarrow> (db_error + unit) \<times> session" where
  "session_commit fails s =
     (if fails Commit then (Inl (DB_Error Commit), s)
      else (Inr (), s\<lparr>committed := working s\<rparr>))"

definition session_rollback :: "session \<Rightarrow> session" where
  "session_rollback s = s\<lparr>working := committed s\<rparr>"

text \<open>\<^verbatim>\<open>session.query(Stock).filter_by(item=item).first()\<close>\<close>

definition query_stock_first :: "(db_step \<Rightarrow> bool) \<Rightarrow> string \<Rightarrow> session
    \<Rightarrow> (db_error + stock option) \<times> session" where
  "query_stock_first fails item s =
     (if fails Select_Stock then (Inl (DB_Error Select_Stock), s)
      else (Inr (find (\<lambda>r. stock_item r = item) (stocks (working s))), s))"

text \<open>The \<^verbatim>\<open>UPDATE stock SET ... WHERE stock.id = ?\<close> of a changed object.\<close>

definition put_stock :: "stock \<Rightarrow> store \<Rightarrow> store" where
  "put_stock st db =
     db\<lparr>stocks := map (\<lambda>r. if stock_id r = stock_id st then st else r) (stocks db)\<rparr>"

definition insert_stock :: "stock \<Rightarrow> store \<Rightarrow> store" where
  "insert_stock st db = db\<lparr>stocks := stocks db @ [st]\<rparr>"

definition insert_sale :: "sale \<Rightarrow> store \<Rightarrow> store" where
  "insert_sale sl db = db\<lparr>sales := sales db @ [sl]\<rparr>"

text \<open>
  \<^verbatim>\<open>try: ... except Exception as e: session.rollback(); raise e
  finally: session.close()\<close>: the caller gets the error or the value, and the store
  is what the session has committed.
\<close>

definition run_session :: "(session \<Rightarrow> (db_error + 'a) \<times> session) \<Rightarrow> store
    \<Rightarrow> (db_error + 'a) \<times> store" where
  "run_session body db =
     (case body (open_session db) of
        (Inl e, s) \<Rightarrow> (Inl e, committed (session_rollback s))
      | (Inr v, s) \<Rightarrow> (Inr v, committed s))"

subsection \<open>\<^verbatim>\<open>BillingService.add_sale\<close>\<close>

text \<open>
  The sale is added to the session; the stock query flushes it (the \<^verbatim>\<open>INSERT\<close>)
  before it selects; a stock row that was found is changed in memory and written
  by the flush of \<^verbatim>\<open>session.commit()\<close>.
\<close>

definition add_sale_try :: "(db_step \<Rightarrow> bool) \<Rightarrow> date \<Rightarrow> string \<Rightarrow> real \<Rightarrow> real \<Rightarrow> real \<Rightarrow> string
    \<Rightarrow> session \<Rightarrow> (db_error + nat) \<times> session" where
  "add_sale_try fails today item qty unit_price total' customer s =
     (let sl = \<lparr>sale_id = next_id (map sale_id (sales (working s))), sale_item = item,
                 sale_qty = qty, sale_unit_price = unit_price, sale_total = total',
                 sale_customer = customer, sale_date = today\<rparr>
      in case execute fails Insert_Sale (insert_sale sl) s of
           (Inl e, s1) \<Rightarrow> (Inl e, s1)
         | (Inr _, s1) \<Rightarrow>
             (case query_stock_first fails item s1 of
                (Inl e, s2) \<Rightarrow> (Inl e, s2)
              | (Inr found, s2) \<Rightarrow>
                  (case (case found of
                           None \<Rightarrow> (Inr (), s2)
                         | Some st \<Rightarrow>
                             execute fails Update_Stock
                               (put_stock (st\<lparr>stock_qty := stock_qty st - qty,
                                               stock_last_updated := today\<rparr>)) s2) of
                     (Inl e, s3) \<Rightarrow> (Inl e, s3)
                   | (Inr _, s3) \<Rightarrow>
                       (case session_commit fails s3 of
                          (Inl e, s4) \<Rightarrow> (Inl e, s4)
                        | (Inr _, s4) \<Rightarrow> (Inr (sale_id sl), s4)))))"

definition add_sale :: "(db_step \<Rightarrow> bool) \<Rightarrow> date \<Rightarrow> string \<Rightarrow> real \<Rightarrow> real \<Rightarrow> real \<Rightarrow> string
    \<Rightarrow> store \<Rightarrow> (db_error + nat) \<times> store" where
  "add_sale fails today item qty unit_price total' customer db =
     run_session (add_sale_try fails today item qty unit_price total' customer) db"

text \<open>No statement fails.\<close>

definition no_faults :: "db_step \<Rightarrow> bool" where
  "no_faults step = False"

subsection \<open>\<^verbatim>\<open>BillingService.add_stock_safe\<close> and the two \<^verbatim>\<open>StockService.update_stock\<close>\<close>

definition add_stock_safe_try :: "(db_step \<Rightarrow> bool) \<Rightarrow> date \<Rightarrow> string \<Rightarrow> real \<Rightarrow> real \<Rightarrow> real
    \<Rightarrow> session \<Rightarrow> (db_error + nat \<times> bool) \<times> session" where
  "add_stock_safe_try fails today item qty threshold unit_cost s =
     (case query_stock_first fails item s of
        (Inl e, s1) \<Rightarrow> (Inl e, s1)
      | (Inr existing_stock, s1) \<Rightarrow>
          (case existing_stock of
             Some st \<Rightarrow>
               (case execute fails Update_Stock
                       (put_stock (st\<lparr>stock_qty := qty, stock_threshold := threshold,
                                       stock_unit_cost := unit_cost,
                                       stock_last_updated := today\<rparr>)) s1 of
                  (Inl e, s2) \<Rightarrow> (Inl e, s2)
                | (Inr _, s2) \<Rightarrow>
                    (case session_commit fails s2 of
                       (Inl e, s3) \<Rightarrow> (Inl e, s3)
                     | (Inr _, s3) \<Rightarrow> (Inr (stock_id st, False), s3)))
           | None \<Rightarrow>
               (let new_stock = \<lparr>stock_id = next_id (map stock_id (stocks (working s1))),
                                 stock_item = item, stock_qty = qty,
                                 stock_threshold = threshold, stock_unit_cost = unit_cost,
                                 stock_last_updated = today\<rparr>
                in case execute fails Insert_Stock (insert_stock new_stock) s1 of
                     (Inl e, s2) \<Rightarrow> (Inl e, s2)
                   | (Inr _, s2) \<Rightarrow>
                       (case session_commit fails s2 of
                          (Inl e, s3) \<Rightarrow> (Inl e, s3)
                        | (Inr _, s3) \<Rightarrow> (Inr (stock_id new_stock, True), s3)))))"

definition add_stock_safe :: "(db_step \<Rightarrow> bool) \<Rightarrow> date \<Rightarrow> string \<Rightarrow> real \<Rightarrow> real \<Rightarrow> real
    \<Rightarrow> store \<Rightarrow> (db_error + nat \<times> bool) \<times> store" where
  "add_stock_safe fails today item qty threshold unit_cost db =
     run_session (add_stock_safe_try fails today item qty threshold unit_cost) db"

text \<open>
  The first \<^verbatim>\<open>class StockService\<close> of \<^verbatim>\<open>stock_service.py\<close> (lines 6 to 60): both
  branches fall through to one \<^verbatim>\<open>session.commit()\<close>, and nothing is returned.
\<close>

definition update_stock_first_try :: "(db_step \<Rightarrow> bool) \<Rightarrow> date \<Rightarrow> string \<Rightarrow> real \<Rightarrow> real \<Rightarrow> real
    \<Rightarrow> session \<Rightarrow> (db_error + unit) \<times> session" where
  "update_stock_first_try fails today item qty threshold unit_cost s =
     (case query_stock_first fails item s of
        (Inl e, s1) \<Rightarrow> (Inl e, s1)
      | (Inr existing_stock, s1) \<Rightarrow>
          (case (case existing_stock of
                   Some st \<Rightarrow>
                     execute fails Update_Stock
                       (put_stock (st\<lparr>stock_qty := qty, stock_threshold := threshold,
                                       stock_unit_cost := unit_cost,
                                       stock_last_updated := today\<rparr>)) s1
                 | None \<Rightarrow>
                     (let new_stock = \<lparr>stock_id = next_id (map stock_id (stocks (working s1))),
                                       stock_item = item, stock_qty = qty,
                                       stock_threshold = threshold,
                                       stock_unit_cost = unit_cost,
                                       stock_last_updated = today\<rparr>
                      in execute fails Insert_Stock (insert_stock new_stock) s1)) of
             (Inl e, s2) \<Rightarrow> (Inl e, s2)
           | (Inr _, s2) \<Rightarrow> session_commit fails s2))"

definition update_stock_first :: "(db_step \<Rightarrow> bool) \<Rightarrow> date \<Rightarrow> string \<Rightarrow> real \<Rightarrow> real \<Rightarrow> real
    \<Rightarrow> store \<Rightarrow> (db_error + unit) \<times> store" where
  "update_stock_first fails today item qty threshold unit_cost db =
     run_session (update_stock_first_try fails today item qty threshold unit_cost) db"

text \<open>
  The second \<^verbatim>\<open>class StockService\<close> (lines 62 to 103), the one the module exports:
  the found row and the new row share the variable \<^verbatim>\<open>stock\<close>.
\<close>

definition update_stock_second_try :: "(db_step \<Rightarrow> bool) \<Rightarrow> date \<Rightarrow> string \<Rightarrow> real \<Rightarrow> real \<Rightarrow> real
    \<Rightarrow> session \<Rightarrow> (db_error + unit) \<times> session" where
  "update_stock_second_try fails today item qty threshold unit_cost s =
     (case query_stock_first fails item s of
        (Inl e, s1) \<Rightarrow> (Inl e, s1)
      | (Inr found, s1) \<Rightarrow>
          (case (case found of
                   Some st \<Rightarrow>
                     execute fails Update_Stock
                       (put_stock (st\<lparr>stock_qty := qty, stock_threshold := threshold,
                                       stock_unit_cost := unit_cost,
                                       stock_last_updated := today\<rparr>)) s1
                 | None \<Rightarrow>
                     execute fails Insert_Stock
                       (insert_stock
                          \<lparr>stock_id = next_id (map stock_id (stocks (working s1))),
                           stock_item = item, stock_qty = qty, stock_threshold = threshold,
                           stock_unit_cost = unit_cost, stock_last_updated = today\<rparr>) s1) of
             (Inl e, s2) \<Rightarrow> (Inl e, s2)
           | (Inr _, s2) \<Rightarrow> session_commit fails s2))"

definition update_stock_second :: "(db_step \<Rightarrow> bool) \<Rightarrow> date \<Rightarrow> string \<Rightarrow> real \<Rightarrow> real \<Rightarrow> real
    \<Rightarrow> store \<Rightarrow> (db_error + unit) \<times> store" where
  "update_stock_second fails today item qty threshold unit_cost db =
     run_session (update_stock_second_try fails today item qty threshold unit_cost) db"

subsection \<open>\<^verbatim>\<open>AnalyticsService.get_sales_forecast\<close>\<close>

text \<open>
  \<^verbatim>\<open>func.avg(Sale.total)\<close> over the rows with \<^verbatim>\<open>Sale.date >= seven_days_ago\<close>:
  SQL's \<^verbatim>\<open>AVG\<close> of no rows is \<^verbatim>\<open>NULL\<close>, Python's \<^verbatim>\<open>None\<close>. In
  \<^verbatim>\<open>(result or 0.0) * 7\<close> both \<^verbatim>\<open>None\<close> and \<^verbatim>\<open>0.0\<close> are falsy.
\<close>

definition sql_avg :: "real list \<Rightarrow> real option" where
  "sql_avg xs = (if xs = [] then None else Some (sum_list xs / real (length xs)))"

definition or_zero :: "real option \<Rightarrow> real" where
  "or_zero r = (case r of None \<Rightarrow> 0 | Some x \<Rightarrow> if x = 0 then 0 else x)"

definition get_sales_forecast :: "date \<Rightarrow> store \<Rightarrow> real" where
  "get_sales_forecast today db =
     (let seven_days_ago = today - 7;
          result = sql_avg (map sale_total (filter (\<lambda>s. seven_days_ago \<le> sale_date s) (sales db)))
      in or_zero result * 7)"

subsection \<open>What an upsert writes\<close>

text \<open>The fields \<^verbatim>\<open>add_stock_safe\<close> and \<^verbatim>\<open>update_stock\<close> assign to a row that exists.\<close>

definition overwrite :: "date \<Rightarrow> real \<Rightarrow> real \<Rightarrow> real \<Rightarrow> stock \<Rightarrow> stock" where
  "overwrite today qty threshold unit_cost r =
     r\<lparr>stock_qty := qty, stock_threshold := threshold, stock_unit_cost := unit_cost,
       stock_last_updated := today\<rparr>"

subsection \<open>The forecast as the specification words it\<close>

text \<open>
  The specification speaks of the average of the trailing seven days' per-day sale
  totals, times 7. \<open>day_total\<close> is the sum of the totals of one day's sales,
  \<open>trailing_days last_day 7\<close> are the seven days that end with \<open>last_day\<close> (today, or
  yesterday). \<open>forecast_per_day\<close> averages the seven day totals;
  \<open>forecast_per_selling_day\<close> averages over the days that have a sale.
\<close>

definition day_total :: "sale list \<Rightarrow> date \<Rightarrow> real" where
  "day_total rows d = sum_list (map sale_total (filter (\<lambda>s. sale_date s = d) rows))"

definition trailing_days :: "date \<Rightarrow> date \<Rightarrow> date list" where
  "trailing_days last_day n = map (\<lambda>k. last_day - int k) (rev [0..<nat n])"

definition forecast_per_day :: "date \<Rightarrow> store \<Rightarrow> real" where
  "forecast_per_day last_day db =
     sum_list (map (day_total (sales db)) (trailing_days last_day 7)) / 7 * 7"

definition forecast_per_selling_day :: "date \<Rightarrow> store \<Rightarrow> real" where
  "forecast_per_selling_day last_day db =
     (let days = filter (\<lambda>d. filter (\<lambda>s. sale_date s = d) (sales db) \<noteq> []) (trailing_days last_day 7)
      in if days = [] then 0
         else sum_list (map (day_total (sales db)) days) / real (length days) * 7)"

section \<open>The import normalizer\<close>

subsection \<open>Header cleaning\<close>

text \<open>
  Headers are ASCII strings. \<^verbatim>\<open>str.strip()\<close> removes the characters for which
  \<^verbatim>\<open>str.isspace\<close> holds: tab to carriage return, the four separators
  \<^verbatim>\<open>\x1c\<close> to \<^verbatim>\<open>\x1f\<close>, and the space.
\<close>

definition is_space :: "char \<Rightarrow> bool" where
  "is_space c = (let n = of_char c :: nat in (9 \<le> n \<and> n \<le> 13) \<or> (28 \<le> n \<and> n \<le> 32))"

definition str_strip :: "string \<Rightarrow> string" where
  "str_strip s = rev (dropWhile is_space (rev (dropWhile is_space s)))"

definition lower_char :: "char \<Rightarrow> char" where
  "lower_char c = (let n = of_char c :: nat in if 65 \<le> n \<and> n \<le> 90 then char_of (n + 32) else c)"

definition str_lower :: "string \<Rightarrow> string" where
  "str_lower s = map lower_char s"

definition str_replace :: "char \<Rightarrow> char \<Rightarrow> string \<Rightarrow> string" where
  "str_replace a b s = map (\<lambda>c. if c = a then b else c) s"

text \<open>\<^verbatim>\<open>str(c).strip().lower().replace(" ", "_").replace("-", "_")\<close>\<close>

definition clean_col :: "string \<Rightarrow> string" where
  "clean_col c = str_replace CHR ''-'' CHR ''_'' (str_replace CHR '' '' CHR ''_'' (str_lower (str_strip c)))"

definition clean_cols :: "string list \<Rightarrow> string list" where
  "clean_cols cols = map clean_col cols"

subsection \<open>Synonym tables\<close>

text \<open>
  The dictionaries \<^verbatim>\<open>mapping\<close> of the three normalizers, in insertion order (the order
  in which \<^verbatim>\<open>mapping.items()\<close> yields them).
\<close>

type_synonym synonyms = "(string \<times> string list) list"

definition sales_mapping :: synonyms where
  "sales_mapping =
     [(''item'', [''product'', ''product_name'', ''item_name'', ''name'', ''sku'', ''title'']),
      (''qty'', [''quantity'', ''units'', ''count'', ''qnty'', ''qnt'', ''qty_sold'']),
      (''unit_price'', [''price'', ''rate'', ''unitprice'', ''selling_price'', ''mrp'', ''unit_cost'']),
      (''customer'', [''customer_name'', ''client'', ''buyer'', ''member'', ''party''])]"

definition inventory_mapping :: synonyms where
  "inventory_mapping =
     [(''item'', [''item_name'', ''product'', ''name'', ''sku'', ''title'']),
      (''qty'', [''quantity'', ''stock'', ''on_hand'', ''units'']),
      (''threshold'', [''reorder_level'', ''reorder_point'', ''min_qty'', ''min_stock'']),
      (''unit_cost'', [''cost'', ''purchase_price'', ''unitprice'', ''base_cost''])]"

definition expenses_mapping :: synonyms where
  "expenses_mapping =
     [(''category'', [''type'', ''head'', ''expense_category'']),
      (''vendor'', [''supplier'', ''party'', ''payee'', ''seller'']),
      (''amount'', [''amt'', ''value'', ''cost'', ''price'', ''total'', ''expense'']),
      (''notes'', [''note'', ''remark'', ''remarks'', ''description''])]"

subsection \<open>Data frames\<close>

text \<open>
  A cell of a frame read by \<^verbatim>\<open>pd.read_csv\<close> or \<^verbatim>\<open>pd.read_excel\<close> is missing
  (\<^verbatim>\<open>NaN\<close>), a number or a string. A frame is its row labels and its columns, each a
  label with one cell per row; labels may repeat. Selecting a label that one column
  carries gives a \<^verbatim>\<open>Series\<close>, selecting a repeated label gives a \<^verbatim>\<open>DataFrame\<close>.
\<close>

datatype cell = Missing | Num real | Str string

record dataframe =
  df_index :: "nat list"
  df_columns :: "(string \<times> cell list) list"

datatype selection = Series "cell list" | Frame "cell list list"

datatype py_error = KeyError | AttributeError | TypeError | ValueError

definition and_then :: "'e + 'a \<Rightarrow> ('a \<Rightarrow> 'e + 'b) \<Rightarrow> 'e + 'b" where
  "and_then r f = (case r of Inl e \<Rightarrow> Inl e | Inr v \<Rightarrow> f v)"

definition labels :: "dataframe \<Rightarrow> string list" where
  "labels df = map fst (df_columns df)"

definition cols_named :: "dataframe \<Rightarrow> string \<Rightarrow> cell list list" where
  "cols_named df c = map snd (filter (\<lambda>p. fst p = c) (df_columns df))"

text \<open>\<^verbatim>\<open>df[c]\<close>\<close>

definition df_getitem :: "dataframe \<Rightarrow> string \<Rightarrow> py_error + selection" where
  "df_getitem df c =
     (case cols_named df c of
        [] \<Rightarrow> Inl KeyError
      | [s] \<Rightarrow> Inr (Series s)
      | s # t # ss \<Rightarrow> Inr (Frame (s # t # ss)))"

text \<open>\<^verbatim>\<open>df[c] = s\<close>: a new label is appended, an old one has its cells replaced.\<close>

definition df_setitem :: "dataframe \<Rightarrow> string \<Rightarrow> cell list \<Rightarrow> dataframe" where
  "df_setitem df c s =
     (if c \<in> set (labels df)
      then df\<lparr>df_columns := map (\<lambda>p. if fst p = c then (c, s) else p) (df_columns df)\<rparr>
      else df\<lparr>df_columns := df_columns df @ [(c, s)]\<rparr>)"

text \<open>\<^verbatim>\<open>df[mask]\<close> with a Boolean series: the rows whose mask is true.\<close>

definition keep :: "bool list \<Rightarrow> 'a list \<Rightarrow> 'a list" where
  "keep flags xs = map snd (filter fst (zip flags xs))"

definition df_filter :: "bool list \<Rightarrow> dataframe \<Rightarrow> dataframe" where
  "df_filter flags df =
     \<lparr>df_index = keep flags (df_index df),
      df_columns = map (\<lambda>p. (fst p, keep flags (snd p))) (df_columns df)\<rparr>"

text \<open>\<^verbatim>\<open>df[[c1, c2, ...]]\<close>: the columns of each listed label, in the order listed.\<close>

definition df_select :: "dataframe \<Rightarrow> string list \<Rightarrow> py_error + dataframe" where
  "df_select df cs =
     (if list_all (\<lambda>c. c \<in> set (labels df)) cs
      then Inr (df\<lparr>df_columns := concat (map (\<lambda>c. filter (\<lambda>p. fst p = c) (df_columns df)) cs)\<rparr>)
      else Inl KeyError)"

subsection \<open>\<^verbatim>\<open>Dashboard._rename_with_synonyms\<close>\<close>

text \<open>
  The two loops fill \<^verbatim>\<open>rename_map\<close>: a later target overwrites the entry of an
  earlier one. \<^verbatim>\<open>df.rename(columns=rename_map)\<close> replaces every label that is a key
  of the map, so the guard \<^verbatim>\<open>if rename_map:\<close> makes no difference and is left out.
\<close>

definition rename_map :: "string list \<Rightarrow> synonyms \<Rightarrow> (string \<rightharpoonup> string)" where
  "rename_map cols mapping =
     fold (\<lambda>(target, syns) m.
             fold (\<lambda>c m. if c = target \<or> c \<in> set syns then m(c \<mapsto> target) else m) cols m)
          mapping Map.empty"

definition rename_with_synonyms :: "dataframe \<Rightarrow> synonyms \<Rightarrow> dataframe" where
  "rename_with_synonyms df mapping =
     (let cols = clean_cols (labels df);
          rm = rename_map cols mapping
      in df\<lparr>df_columns :=
              zip (map (\<lambda>c. case rm c of None \<Rightarrow> c | Some target \<Rightarrow> target) cols)
                  (map snd (df_columns df))\<rparr>)"

subsection \<open>Coercions\<close>

text \<open>
  \<^verbatim>\<open>astype(str)\<close> turns a missing cell into the string \<^verbatim>\<open>nan\<close> and a number into
  its printed form \<open>num_str\<close>; \<^verbatim>\<open>pd.to_numeric(..., errors="coerce")\<close> keeps numbers,
  parses strings with the parser \<open>parse\<close> of pandas and makes what does not parse
  missing. Both library functions are arguments of the normalizers.
\<close>

definition astype_str :: "(real \<Rightarrow> string) \<Rightarrow> cell \<Rightarrow> cell" where
  "astype_str num_str c =
     (case c of Missing \<Rightarrow> Str ''nan'' | Num x \<Rightarrow> Str (num_str x) | Str s \<Rightarrow> Str s)"

definition fillna :: "cell \<Rightarrow> cell \<Rightarrow> cell" where
  "fillna v c = (case c of Missing \<Rightarrow> v | Num x \<Rightarrow> Num x | Str s \<Rightarrow> Str s)"

definition sel_map :: "(cell \<Rightarrow> cell) \<Rightarrow> selection \<Rightarrow> selection" where
  "sel_map f sel = (case sel of Series s \<Rightarrow> Series (map f s) | Frame ss \<Rightarrow> Frame (map (map f) ss))"

text \<open>The accessor \<^verbatim>\<open>.str\<close> exists on a series only.\<close>

definition str_accessor :: "selection \<Rightarrow> py_error + cell list" where
  "str_accessor sel = (case sel of Series s \<Rightarrow> Inr s | Frame ss \<Rightarrow> Inl AttributeError)"

text \<open>\<^verbatim>\<open>.str.strip()\<close> and \<^verbatim>\<open>.str.len() > 0\<close>: a cell that is no string gives \<^verbatim>\<open>NaN\<close>.\<close>

definition strip_cell :: "cell \<Rightarrow> cell" where
  "strip_cell c = (case c of Str s \<Rightarrow> Str (str_strip s) | Num x \<Rightarrow> Missing | Missing \<Rightarrow> Missing)"

definition len_positive :: "cell \<Rightarrow> bool" where
  "len_positive c = (case c of Str s \<Rightarrow> 0 < length s | Num x \<Rightarrow> False | Missing \<Rightarrow> False)"

definition to_numeric_cell :: "(string \<Rightarrow> real option) \<Rightarrow> cell \<Rightarrow> cell" where
  "to_numeric_cell parse c =
     (case c of
        Missing \<Rightarrow> Missing
      | Num x \<Rightarrow> Num x
      | Str s \<Rightarrow> (case parse s of None \<Rightarrow> Missing | Some x \<Rightarrow> Num x))"

text \<open>\<^verbatim>\<open>pd.to_numeric\<close> takes a list, a tuple, a 1-d array or a series.\<close>

definition to_numeric :: "(string \<Rightarrow> real option) \<Rightarrow> selection \<Rightarrow> py_error + cell list" where
  "to_numeric parse sel =
     (case sel of Series s \<Rightarrow> Inr (map (to_numeric_cell parse) s) | Frame ss \<Rightarrow> Inl TypeError)"

text \<open>
  \<^verbatim>\<open>df[c] > 0\<close>: a comparison with \<^verbatim>\<open>NaN\<close> is false, a string against a number
  raises. The string case and the frame case are not reached by the normalizers,
  which have made the column numeric before.
\<close>

fun positive_mask :: "cell list \<Rightarrow> py_error + bool list" where
  "positive_mask [] = Inr []"
| "positive_mask (Num x # cs) = and_then (positive_mask cs) (\<lambda>m. Inr ((0 < x) # m))"
| "positive_mask (Missing # cs) = and_then (positive_mask cs) (\<lambda>m. Inr (False # m))"
| "positive_mask (Str s # cs) = Inl TypeError"

definition gt_zero :: "selection \<Rightarrow> py_error + bool list" where
  "gt_zero sel = (case sel of Series s \<Rightarrow> positive_mask s | Frame ss \<Rightarrow> Inl ValueError)"

subsection \<open>The steps of a normalizer\<close>

text \<open>\<^verbatim>\<open>if col not in df.columns: df[col] = default\<close>, the scalar on every row.\<close>

definition ensure_column :: "string \<times> cell \<Rightarrow> dataframe \<Rightarrow> dataframe" where
  "ensure_column cd df =
     (if fst cd \<in> set (labels df) then df
      else df_setitem df (fst cd) (replicate (length (df_index df)) (snd cd)))"

text \<open>\<^verbatim>\<open>df[col] = df[col].astype(str).str.strip()\<close>\<close>

definition assign_stripped :: "(real \<Rightarrow> string) \<Rightarrow> string \<Rightarrow> dataframe \<Rightarrow> py_error + dataframe" where
  "assign_stripped num_str col df =
     and_then (df_getitem df col) (\<lambda>sel.
     and_then (str_accessor (sel_map (astype_str num_str) sel)) (\<lambda>s.
     Inr (df_setitem df col (map strip_cell s))))"

text \<open>\<^verbatim>\<open>df[col] = df[col].astype(str).fillna("").str.strip()\<close>\<close>

definition assign_stripped_filled :: "(real \<Rightarrow> string) \<Rightarrow> string \<Rightarrow> dataframe \<Rightarrow> py_error + dataframe" where
  "assign_stripped_filled num_str col df =
     and_then (df_getitem df col) (\<lambda>sel.
     and_then (str_accessor (sel_map (fillna (Str '''')) (sel_map (astype_str num_str) sel))) (\<lambda>s.
     Inr (df_setitem df col (map strip_cell s))))"

text \<open>\<^verbatim>\<open>df[col] = pd.to_numeric(df[col], errors="coerce").fillna(d)\<close>\<close>

definition assign_numeric :: "(string \<Rightarrow> real option) \<Rightarrow> real \<Rightarrow> string \<Rightarrow> dataframe
    \<Rightarrow> py_error + dataframe" where
  "assign_numeric parse d col df =
     and_then (df_getitem df col) (\<lambda>sel.
     and_then (to_numeric parse sel) (\<lambda>s.
     Inr (df_setitem df col (map (fillna (Num d)) s))))"

text \<open>\<^verbatim>\<open>df = df[df[col].str.len() > 0]\<close>\<close>

definition keep_nonblank :: "string \<Rightarrow> dataframe \<Rightarrow> py_error + dataframe" where
  "keep_nonblank col df =
     and_then (df_getitem df col) (\<lambda>sel.
     and_then (str_accessor sel) (\<lambda>s.
     Inr (df_filter (map len_positive s) df)))"

text \<open>\<^verbatim>\<open>df = df[df[col] > 0]\<close>\<close>

definition keep_positive :: "string \<Rightarrow> dataframe \<Rightarrow> py_error + dataframe" where
  "keep_positive col df =
     and_then (df_getitem df col) (\<lambda>sel.
     and_then (gt_zero sel) (\<lambda>flags.
     Inr (df_filter flags df)))"

subsection \<open>\<^verbatim>\<open>Dashboard._normalize_sales_df\<close>\<close>

text \<open>
  The function in the three parts its comments name. \<open>sales_resolved\<close> renames the
  headers and runs the loop under \<^verbatim>\<open># Ensure columns exist\<close>, with the empty string
  for \<^verbatim>\<open>item\<close> and \<^verbatim>\<open>customer\<close> and 0 for the two numbers; \<open>sales_coerce\<close> is the
  four assignments under \<^verbatim>\<open># Coerce\<close>, the quantity filled with 1 and the price
  with 0; \<open>sales_filters\<close> is the two filters and the returned selection.
\<close>

definition sales_resolved :: "dataframe \<Rightarrow> dataframe" where
  "sales_resolved df =
     fold ensure_column
       [(''item'', Str ''''), (''qty'', Num 0), (''unit_price'', Num 0), (''customer'', Str '''')]
       (rename_with_synonyms df sales_mapping)"

definition sales_coerce :: "(string \<Rightarrow> real option) \<Rightarrow> (real \<Rightarrow> string) \<Rightarrow> dataframe
    \<Rightarrow> py_error + dataframe" where
  "sales_coerce parse num_str df =
     and_then (assign_stripped num_str ''item'' df) (\<lambda>df.
     and_then (assign_stripped_filled num_str ''customer'' df) (\<lambda>df.
     and_then (assign_numeric parse 1 ''qty'' df) (\<lambda>df.
     assign_numeric parse 0 ''unit_price'' df)))"

definition sales_filters :: "dataframe \<Rightarrow> py_error + dataframe" where
  "sales_filters df =
     and_then (keep_nonblank ''item'' df) (\<lambda>df.
     and_then (keep_positive ''qty'' df) (\<lambda>df.
     df_select df [''item'', ''qty'', ''unit_price'', ''customer'']))"

definition normalize_sales_df :: "(string \<Rightarrow> real option) \<Rightarrow> (real \<Rightarrow> string) \<Rightarrow> dataframe
    \<Rightarrow> py_error + dataframe" where
  "normalize_sales_df parse num_str df =
     and_then (sales_coerce parse num_str (sales_resolved df)) sales_filters"

subsection \<open>\<^verbatim>\<open>Dashboard._normalize_expenses_df\<close>\<close>

text \<open>
  The same three parts: renaming and defaults, the four assignments (the amount
  filled with 0), the filters on category and amount and the returned selection.
\<close>

definition expenses_resolved :: "dataframe \<Rightarrow> dataframe" where
  "expenses_resolved df =
     fold ensure_column
       [(''category'', Str ''''), (''vendor'', Str ''''), (''amount'', Num 0), (''notes'', Str '''')]
       (rename_with_synonyms df expenses_mapping)"

definition expenses_coerce :: "(string \<Rightarrow> real option) \<Rightarrow> (real \<Rightarrow> string) \<Rightarrow> dataframe
    \<Rightarrow> py_error + dataframe" where
  "expenses_coerce parse num_str df =
     and_then (assign_stripped num_str ''category'' df) (\<lambda>df.
     and_then (assign_stripped_filled num_str ''vendor'' df) (\<lambda>df.
     and_then (assign_stripped_filled num_str ''notes'' df) (\<lambda>df.
     assign_numeric parse 0 ''amount'' df)))"

definition expenses_filters :: "dataframe \<Rightarrow> py_error + dataframe" where
  "expenses_filters df =
     and_then (keep_nonblank ''category'' df) (\<lambda>df.
     and_then (keep_positive ''amount'' df) (\<lambda>df.
     df_select df [''category'', ''vendor'', ''amount'', ''notes'']))"

definition normalize_expenses_df :: "(string \<Rightarrow> real option) \<Rightarrow> (real \<Rightarrow> string) \<Rightarrow> dataframe
    \<Rightarrow> py_error + dataframe" where
  "normalize_expenses_df parse num_str df =
     and_then (expenses_coerce parse num_str (expenses_resolved df)) expenses_filters"

subsection \<open>Header variants\<close>

text \<open>
  A header is a variant of a cleaned name when it is the name with any letter in
  upper case and any underscore written as a space or a hyphen, between leading and
  trailing white space.
\<close>

definition variant_char :: "char \<Rightarrow> char \<Rightarrow> bool" where
  "variant_char v c = (lower_char v = c \<or> (c = CHR ''_'' \<and> (v = CHR '' '' \<or> v = CHR ''-'')))"

definition header_variant :: "string \<Rightarrow> string \<Rightarrow> string \<Rightarrow> string \<Rightarrow> bool" where
  "header_variant pre core suf s =
     (list_all is_space pre \<and> list_all is_space suf \<and> list_all2 variant_char core s)"

text \<open>The target a cleaned label is renamed to: the last entry of the table it matches.\<close>

definition lookup_target :: "synonyms \<Rightarrow> string \<Rightarrow> string option" where
  "lookup_target mapping c =
     fold (\<lambda>(target, syns) r. if c = target \<or> c \<in> set syns then Some target else r) mapping None"

text \<open>
  A cleaned name: not empty, of characters that cleaning leaves alone, with no
  underscore at either end.
\<close>

definition clean_char :: "char \<Rightarrow> bool" where
  "clean_char c = (lower_char c = c \<and> c \<noteq> CHR '' '' \<and> c \<noteq> CHR ''-'' \<and> \<not> is_space c)"

definition clean_name :: "string \<Rightarrow> bool" where
  "clean_name s = (s \<noteq> [] \<and> list_all clean_char s \<and> hd s \<noteq> CHR ''_'' \<and> last s \<noteq> CHR ''_'')"

text \<open>Every name of a table is cleaned and looked up as the target it is listed under.\<close>

definition resolves_all :: "synonyms \<Rightarrow> bool" where
  "resolves_all mapping =
     list_all (\<lambda>(target, syns).
       list_all (\<lambda>s. clean_name s \<and> lookup_target mapping s = Some target) (target # syns)) mapping"

subsection \<open>Rows\<close>

text \<open>
  What the normalizers make of a cell: a text cell is cast to a string and stripped,
  a numeric cell is parsed and defaulted. A numeric cell passes \<^verbatim>\<open>> 0\<close> when it is
  a positive number.
\<close>

definition text_cell :: "(real \<Rightarrow> string) \<Rightarrow> cell \<Rightarrow> cell" where
  "text_cell num_str c = strip_cell (astype_str num_str c)"

definition number_cell :: "(string \<Rightarrow> real option) \<Rightarrow> real \<Rightarrow> cell \<Rightarrow> cell" where
  "number_cell parse d c = fillna (Num d) (to_numeric_cell parse c)"

definition is_positive :: "cell \<Rightarrow> bool" where
  "is_positive c = (case c of Num x \<Rightarrow> 0 < x | Str s \<Rightarrow> False | Missing \<Rightarrow> False)"

definition is_num :: "cell \<Rightarrow> bool" where
  "is_num c = (case c of Num x \<Rightarrow> True | Str s \<Rightarrow> False | Missing \<Rightarrow> False)"

text \<open>\<^verbatim>\<open>row[c]\<close> for the rows of \<^verbatim>\<open>df.iterrows()\<close>, column by column.\<close>

definition column :: "dataframe \<Rightarrow> string \<Rightarrow> cell list" where
  "column df c = (case cols_named df c of [] \<Rightarrow> [] | s # ss \<Rightarrow> s)"

type_synonym sales_row = "nat \<times> cell \<times> cell \<times> cell \<times> cell"

definition sales_rows :: "dataframe \<Rightarrow> sales_row list" where
  "sales_rows df =
     zip (df_index df) (zip (column df ''item'') (zip (column df ''qty'')
       (zip (column df ''unit_price'') (column df ''customer''))))"

text \<open>The filter of the sales normalizer, on a coerced row.\<close>

definition sales_row_ok :: "sales_row \<Rightarrow> bool" where
  "sales_row_ok r = (case r of (i, it, q, p, cu) \<Rightarrow> len_positive it \<and> is_positive q)"

text \<open>The coercions of the sales normalizer, on a row of the resolved frame.\<close>

definition sales_row_coerced :: "(string \<Rightarrow> real option) \<Rightarrow> (real \<Rightarrow> string) \<Rightarrow> sales_row \<Rightarrow> sales_row" where
  "sales_row_coerced parse num_str r =
     (case r of (i, it, q, p, cu) \<Rightarrow>
        (i, text_cell num_str it, number_cell parse 1 q, number_cell parse 0 p,
         text_cell num_str cu))"

text \<open>The two row filters of a normalizer as one mask: text not empty and number positive.\<close>

definition both_flags :: "cell list \<Rightarrow> cell list \<Rightarrow> bool list" where
  "both_flags ts ns = map (\<lambda>(t, n). len_positive t \<and> is_positive n) (zip ts ns)"





subsection \<open>\<^verbatim>\<open>Dashboard.process_csv_upload\<close>, the branch of sales\<close>

text \<open>
  \<^verbatim>\<open>str(x)\<close>, \<^verbatim>\<open>str(x or "")\<close> and \<^verbatim>\<open>float(x)\<close> on a cell of a row. A missing
  number is \<^verbatim>\<open>nan\<close>, which the \<^verbatim>\<open>NOT NULL\<close> columns refuse: the row is skipped
  like one whose conversion raises. The normalizer leaves no such cell.
\<close>

definition py_str :: "(real \<Rightarrow> string) \<Rightarrow> cell \<Rightarrow> string" where
  "py_str num_str c = (case c of Str s \<Rightarrow> s | Num x \<Rightarrow> num_str x | Missing \<Rightarrow> ''nan'')"

definition py_str_or_empty :: "(real \<Rightarrow> string) \<Rightarrow> cell \<Rightarrow> string" where
  "py_str_or_empty num_str c =
     (case c of Str s \<Rightarrow> s | Num x \<Rightarrow> (if x = 0 then [] else num_str x) | Missing \<Rightarrow> ''nan'')"

definition py_float :: "(string \<Rightarrow> real option) \<Rightarrow> cell \<Rightarrow> py_error + real" where
  "py_float parse c =
     (case c of
        Num x \<Rightarrow> Inr x
      | Str s \<Rightarrow> (case parse s of None \<Rightarrow> Inl ValueError | Some x \<Rightarrow> Inr x)
      | Missing \<Rightarrow> Inl ValueError)"

text \<open>
  The loop over \<^verbatim>\<open>norm.iterrows()\<close>: a row whose conversion or whose
  \<^verbatim>\<open>add_sale\<close> raises is skipped with a toast, the others are counted. The
  statements that fail are given per row label.
\<close>

fun import_sales_rows :: "(nat \<Rightarrow> db_step \<Rightarrow> bool) \<Rightarrow> date \<Rightarrow> (string \<Rightarrow> real option)
    \<Rightarrow> (real \<Rightarrow> string) \<Rightarrow> sales_row list \<Rightarrow> nat \<times> store \<Rightarrow> nat \<times> store" where
  "import_sales_rows fails today parse num_str [] acc = acc"
| "import_sales_rows fails today parse num_str ((i, it, q, p, cu) # rows) (success, db) =
     import_sales_rows fails today parse num_str rows
       (case and_then (py_float parse q) (\<lambda>qty.
             and_then (py_float parse p) (\<lambda>price. Inr (qty, price))) of
          Inl e \<Rightarrow> (success, db)
        | Inr (qty, price) \<Rightarrow>
            (case add_sale (fails i) today (py_str num_str it) qty price (qty * price)
                    (py_str_or_empty num_str cu) db of
               (Inl e, db') \<Rightarrow> (success, db')
             | (Inr sale_key, db') \<Rightarrow> (success + 1, db')))"

text \<open>
  The frame is what \<^verbatim>\<open>pd.read_csv\<close> or \<^verbatim>\<open>pd.read_excel\<close> returned. An error of
  the normalizer reaches the outer handler (\<^verbatim>\<open>Error processing file\<close>); otherwise
  the number of imported sales is reported.
\<close>

definition process_csv_upload_sales :: "(nat \<Rightarrow> db_step \<Rightarrow> bool) \<Rightarrow> date
    \<Rightarrow> (string \<Rightarrow> real option) \<Rightarrow> (real \<Rightarrow> string) \<Rightarrow> dataframe \<Rightarrow> store
    \<Rightarrow> (py_error + nat) \<times> store" where
  "process_csv_upload_sales fails today parse num_str df db =
     (case normalize_sales_df parse num_str df of
        Inl e \<Rightarrow> (Inl e, db)
      | Inr normalized \<Rightarrow>
          (case import_sales_rows fails today parse num_str (sales_rows normalized) (0, db) of
             (success, db') \<Rightarrow> (Inr success, db')))"

subsection \<open>Quantity headers and the rows of expenses\<close>

text \<open>The names the sales table resolves to \<^verbatim>\<open>qty\<close>.\<close>

definition sales_qty_names :: "string list" where
  "sales_qty_names = [''qty'', ''quantity'', ''units'', ''count'', ''qnty'', ''qnt'', ''qty_sold'']"

text \<open>
  The rows of an expenses frame, the amount next to the category: label, category,
  amount, vendor, notes.
\<close>

type_synonym expenses_row = "nat \<times> cell \<times> cell \<times> cell \<times> cell"

definition expenses_rows :: "dataframe \<Rightarrow> expenses_row list" where
  "expenses_rows df =
     zip (df_index df) (zip (column df ''category'') (zip (column df ''amount'')
       (zip (column df ''vendor'') (column df ''notes''))))"

definition expenses_row_ok :: "expenses_row \<Rightarrow> bool" where
  "expenses_row_ok r = (case r of (i, cat, am, ven, nt) \<Rightarrow> len_positive cat \<and> is_positive am)"

definition expenses_row_coerced :: "(string \<Rightarrow> real option) \<Rightarrow> (real \<Rightarrow> string) \<Rightarrow> expenses_row
    \<Rightarrow> expenses_row" where
  "expenses_row_coerced parse num_str r =
     (case r of (i, cat, am, ven, nt) \<Rightarrow>
        (i, text_cell num_str cat, number_cell parse 0 am, text_cell num_str ven,
         text_cell num_str nt))"

text \<open>A cell that \<^verbatim>\<open>pd.to_numeric(..., errors="coerce")\<close> turns into \<^verbatim>\<open>NaN\<close>.\<close>

definition unparseable :: "(string \<Rightarrow> real option) \<Rightarrow> cell \<Rightarrow> bool" where
  "unparseable parse c = (to_numeric_cell parse c = Missing)"

section \<open>Example stores and frames\<close>

text \<open>The store of \<^verbatim>\<open>tests/test_sales.py\<close>: one stock row for Sugar, no sale yet.\<close>

definition sugar_store :: store where
  "sugar_store = \<lparr>sales = [], stocks = [\<lparr>stock_id = 1, stock_item = ''Sugar'', stock_qty = 10,
       stock_threshold = 5, stock_unit_cost = 40, stock_last_updated = 739000\<rparr>]\<rparr>"

text \<open>A database that refuses the \<^verbatim>\<open>UPDATE\<close> of a stock row and nothing else.\<close>

definition update_fails :: "db_step \<Rightarrow> bool" where
  "update_fails step = (step = Update_Stock)"

definition empty_store :: store where
  "empty_store = \<lparr>sales = [], stocks = []\<rparr>"

text \<open>Two sales on one day, the first two rows of \<^verbatim>\<open>load_sample_data\<close>.\<close>

definition two_sales_store :: store where
  "two_sales_store =
     \<lparr>sales = [\<lparr>sale_id = 1, sale_item = ''Sugar'', sale_qty = 2, sale_unit_price = 50,
                 sale_total = 100, sale_customer = ''John'', sale_date = 739000\<rparr>,
               \<lparr>sale_id = 2, sale_item = ''Rice'', sale_qty = 1, sale_unit_price = 60,
                 sale_total = 60, sale_customer = ''Mary'', sale_date = 739000\<rparr>],
      stocks = []\<rparr>"

text \<open>A parser for the examples: a non-empty string of decimal digits is a number.\<close>

definition parse_digits :: "string \<Rightarrow> real option" where
  "parse_digits s =
     (if s \<noteq> [] \<and> list_all (\<lambda>c. 48 \<le> (of_char c :: nat) \<and> (of_char c :: nat) \<le> 57) s
      then Some (real (foldl (\<lambda>n c. 10 * n + (of_char c - 48)) 0 s))
      else None)"

text \<open>A printer for the examples; none of them prints a number.\<close>

definition print_any :: "real \<Rightarrow> string" where
  "print_any x = ''0''"

text \<open>Two headers that are synonyms of \<^verbatim>\<open>item\<close>.\<close>

definition two_items_frame :: dataframe where
  "two_items_frame =
     \<lparr>df_index = [0, 1],
      df_columns = [(''Product'', [Str ''Sugar'', Str ''Rice'']),
                    (''Name'', [Str ''Cane'', Str ''Basmati'']),
                    (''Qty'', [Num 2, Num 1])]\<rparr>"

text \<open>
  A sales file with a quantity that is no number, an item of spaces, an empty item
  cell and a price that is no number.
\<close>

definition bad_qty_frame :: dataframe where
  "bad_qty_frame =
     \<lparr>df_index = [0, 1, 2],
      df_columns = [(''Product Name'', [Str ''Sugar'', Str ''  '', Missing]),
                    (''Quantity'', [Str ''abc'', Str ''3'', Str ''4'']),
                    (''Price'', [Str ''50'', Str ''60'', Str ''x''])]\<rparr>"

text \<open>The three headers of the specification's example.\<close>

definition three_headers_frame :: dataframe where
  "three_headers_frame =
     \<lparr>df_index = [0],
      df_columns = [(''Product Name'', [Str ''Sugar'']), (''  product-name'', [Str ''Rice'']),
                    (''PRODUCT_NAME '', [Str ''Tea''])]\<rparr>"

text \<open>Valid items and prices, no quantity column.\<close>

definition no_qty_frame :: dataframe where
  "no_qty_frame =
     \<lparr>df_index = [0, 1],
      df_columns = [(''Item'', [Str ''Sugar'', Str ''Rice'']), (''Price'', [Num 50, Num 60])]\<rparr>"

text \<open>No statement of any row fails.\<close>

definition stmt_ok :: "nat \<Rightarrow> db_step \<Rightarrow> bool" where
  "stmt_ok i step = False"

text \<open>An expenses file whose first amount is no number.\<close>

definition bad_amount_frame :: dataframe where
  "bad_amount_frame =
     \<lparr>df_index = [0, 1],
      df_columns = [(''Type'', [Str ''Fuel'', Str ''Rent'']), (''Amt'', [Str ''abc'', Str ''12''])]\<rparr>"



section \<open>Properties of the transaction service\<close>

lemma fold_max_ge: "(x::nat) \<in> set xs \<Longrightarrow> x \<le> fold max xs a"
proof (induction xs arbitrary: a)
  case Nil then show ?case by simp
next
  case (Cons y ys)
  have mono: "\<And>b. b \<le> fold max ys b"
  proof -
    fix b show "b \<le> fold max ys b"
      by (induction ys arbitrary: b) (auto intro: order_trans [OF max.cobounded2])
  qed
  show ?case
  proof (cases "x = y")
    case True
    then show ?thesis using mono [of "max y a"] by simp
  next
    case False
    then show ?thesis using Cons by simp
  qed
qed

lemma next_id_fresh: "next_id ids \<notin> set ids"
  using fold_max_ge [of "next_id ids" ids 0] by (auto simp: next_id_def)

lemma find_item_row:
  assumes "distinct (map stock_item rows)" and "find (\<lambda>r. stock_item r = item) rows = Some st"
  shows "st \<in> set rows \<and> stock_item st = item \<and> (\<forall>r \<in> set rows. stock_item r = item \<longrightarrow> r = st)"
proof -
  from assms(2) have m: "st \<in> set rows" "stock_item st = item"
    by (auto simp: find_Some_iff)
  moreover have "inj_on stock_item (set rows)"
    using assms(1) by (simp add: distinct_map)
  ultimately show ?thesis by (auto dest: inj_onD)
qed

lemma put_by_id_is_put_by_item:
  assumes "distinct (map stock_id rows)" and "distinct (map stock_item rows)"
    and "find (\<lambda>r. stock_item r = item) rows = Some st"
  shows "map (\<lambda>r. if stock_id r = stock_id st then f st else r) rows
       = map (\<lambda>r. if stock_item r = item then f r else r) rows"
proof -
  have inj: "inj_on stock_id (set rows)"
    using assms(1) by (simp add: distinct_map)
  from find_item_row [OF assms(2,3)]
  have st: "st \<in> set rows" "stock_item st = item"
    and uniq: "\<And>r. r \<in> set rows \<Longrightarrow> stock_item r = item \<Longrightarrow> r = st"
    by auto
  show ?thesis
  proof (rule map_cong [OF refl])
    fix r assume r: "r \<in> set rows"
    show "(if stock_id r = stock_id st then f st else r) = (if stock_item r = item then f r else r)"
      using r st uniq [OF r] inj by (auto dest: inj_onD)
  qed
qed

lemma find_none_map_id:
  assumes "find (\<lambda>r. stock_item r = item) rows = None"
  shows "map (\<lambda>r. if stock_item r = item then f r else r) rows = rows"
  using assms by (induction rows) (auto split: if_splits)

lemma add_sale_no_faults:
  "add_sale no_faults today item qty unit_price total' customer db =
     (Inr (next_id (map sale_id (sales db))),
      (case find (\<lambda>r. stock_item r = item) (stocks db) of
         None \<Rightarrow> insert_sale \<lparr>sale_id = next_id (map sale_id (sales db)), sale_item = item,
                 sale_qty = qty, sale_unit_price = unit_price, sale_total = total',
                 sale_customer = customer, sale_date = today\<rparr> db
       | Some st \<Rightarrow> put_stock (st\<lparr>stock_qty := stock_qty st - qty, stock_last_updated := today\<rparr>)
            (insert_sale \<lparr>sale_id = next_id (map sale_id (sales db)), sale_item = item,
                 sale_qty = qty, sale_unit_price = unit_price, sale_total = total',
                 sale_customer = customer, sale_date = today\<rparr> db)))"
  by (simp add: add_sale_def run_session_def add_sale_try_def execute_def no_faults_def
      query_stock_first_def session_commit_def open_session_def insert_sale_def Let_def
      split: option.splits)

text \<open>
  Claim C1. When no statement fails, \<^verbatim>\<open>add_sale\<close> returns the new key and appends a
  sale row with the given fields and today's date. In a stock table that satisfies the
  schema's constraints, the row of that exact item has its quantity decremented by
  \<open>qty\<close> and its \<^verbatim>\<open>last_updated\<close> set to today, every other row is as before; when
  no row has the item the stock table is unchanged, so no stock row is created.
\<close>

theorem add_sale_effect:
  assumes "stock_table_ok db"
  shows "fst (add_sale no_faults today item qty unit_price total' customer db)
           = Inr (next_id (map sale_id (sales db)))
       \<and> sales (snd (add_sale no_faults today item qty unit_price total' customer db))
           = sales db @ [\<lparr>sale_id = next_id (map sale_id (sales db)), sale_item = item,
                 sale_qty = qty, sale_unit_price = unit_price, sale_total = total',
                 sale_customer = customer, sale_date = today\<rparr>]
       \<and> stocks (snd (add_sale no_faults today item qty unit_price total' customer db))
           = map (\<lambda>r. if stock_item r = item
                       then r\<lparr>stock_qty := stock_qty r - qty, stock_last_updated := today\<rparr>
                       else r) (stocks db)
       \<and> (item \<notin> set (map stock_item (stocks db)) \<longrightarrow>
            stocks (snd (add_sale no_faults today item qty unit_price total' customer db)) = stocks db)"
proof -
  let ?f = "\<lambda>r. r\<lparr>stock_qty := stock_qty r - qty, stock_last_updated := today\<rparr>"
  from assms have d: "distinct (map stock_id (stocks db))" "distinct (map stock_item (stocks db))"
    by (simp_all add: stock_table_ok_def)
  show ?thesis
  proof (cases "find (\<lambda>r. stock_item r = item) (stocks db)")
    case None
    then have "item \<notin> set (map stock_item (stocks db))"
      by (auto simp: find_None_iff)
    with None find_none_map_id [OF None, of ?f] show ?thesis
      by (simp add: add_sale_no_faults insert_sale_def)
  next
    case (Some st)
    then have "item \<in> set (map stock_item (stocks db))"
      by (auto simp: find_Some_iff)
    with Some put_by_id_is_put_by_item [OF d Some, of ?f] show ?thesis
      by (simp add: add_sale_no_faults insert_sale_def put_stock_def)
  qed
qed

theorem add_sale_effect_witness:
  "stock_table_ok sugar_store
   \<and> add_sale no_faults 739001 ''Sugar'' 2 50 100 ''John'' sugar_store =
       (Inr 1,
        \<lparr>sales = [\<lparr>sale_id = 1, sale_item = ''Sugar'', sale_qty = 2, sale_unit_price = 50,
                    sale_total = 100, sale_customer = ''John'', sale_date = 739001\<rparr>],
         stocks = [\<lparr>stock_id = 1, stock_item = ''Sugar'', stock_qty = 8, stock_threshold = 5,
                     stock_unit_cost = 40, stock_last_updated = 739001\<rparr>]\<rparr>)
   \<and> ''Unobtanium'' \<notin> set (map stock_item (stocks sugar_store))
   \<and> fst (add_sale no_faults 739001 ''Unobtanium'' 1 1 1 ''X'' sugar_store) = Inr 1
   \<and> stocks (snd (add_sale no_faults 739001 ''Unobtanium'' 1 1 1 ''X'' sugar_store))
        = stocks sugar_store"
proof -
  have ok: "stock_table_ok sugar_store"
    by (simp add: stock_table_ok_def sugar_store_def)
  have absent: "''Unobtanium'' \<notin> set (map stock_item (stocks sugar_store))"
    by (simp add: sugar_store_def)
  have nid: "next_id (map sale_id (sales sugar_store)) = 1"
    by (simp add: next_id_def sugar_store_def)
  have "add_sale no_faults 739001 ''Sugar'' 2 50 100 ''John'' sugar_store
      = (fst (add_sale no_faults 739001 ''Sugar'' 2 50 100 ''John'' sugar_store),
         \<lparr>sales = sales (snd (add_sale no_faults 739001 ''Sugar'' 2 50 100 ''John'' sugar_store)),
          stocks = stocks (snd (add_sale no_faults 739001 ''Sugar'' 2 50 100 ''John'' sugar_store))\<rparr>)"
    by (simp add: prod_eq_iff)
  also have "\<dots> = (Inr 1,
        \<lparr>sales = [\<lparr>sale_id = 1, sale_item = ''Sugar'', sale_qty = 2, sale_unit_price = 50,
                    sale_total = 100, sale_customer = ''John'', sale_date = 739001\<rparr>],
         stocks = [\<lparr>stock_id = 1, stock_item = ''Sugar'', stock_qty = 8, stock_threshold = 5,
                     stock_unit_cost = 40, stock_last_updated = 739001\<rparr>]\<rparr>)"
    using add_sale_effect [OF ok, of 739001 "''Sugar''" 2 50 100 "''John''"] nid
    by (simp add: sugar_store_def)
  finally have sugar: "add_sale no_faults 739001 ''Sugar'' 2 50 100 ''John'' sugar_store = (Inr 1,
        \<lparr>sales = [\<lparr>sale_id = 1, sale_item = ''Sugar'', sale_qty = 2, sale_unit_price = 50,
                    sale_total = 100, sale_customer = ''John'', sale_date = 739001\<rparr>],
         stocks = [\<lparr>stock_id = 1, stock_item = ''Sugar'', stock_qty = 8, stock_threshold = 5,
                     stock_unit_cost = 40, stock_last_updated = 739001\<rparr>]\<rparr>)" .
  note u = add_sale_effect [OF ok, of 739001 "''Unobtanium''" 1 1 1 "''X''"]
  from u nid have u1: "fst (add_sale no_faults 739001 ''Unobtanium'' 1 1 1 ''X'' sugar_store) = Inr 1"
    by simp
  from u absent have u2: "stocks (snd (add_sale no_faults 739001 ''Unobtanium'' 1 1 1 ''X'' sugar_store))
        = stocks sugar_store"
    by blast
  from ok sugar absent u1 u2 show ?thesis
    by blast
qed

lemma add_sale_result:
  "add_sale fails today item qty unit_price total' customer db =
     (if fails Insert_Sale then (Inl (DB_Error Insert_Sale), db)
      else if fails Select_Stock then (Inl (DB_Error Select_Stock), db)
      else if item \<in> set (map stock_item (stocks db)) \<and> fails Update_Stock
        then (Inl (DB_Error Update_Stock), db)
      else if fails Commit then (Inl (DB_Error Commit), db)
      else add_sale no_faults today item qty unit_price total' customer db)"
proof -
  have f: "(find (\<lambda>r. stock_item r = item) (stocks db) = None)
        = (item \<notin> set (map stock_item (stocks db)))"
    by (auto simp: find_None_iff)
  show ?thesis
    using f
    by (cases "find (\<lambda>r. stock_item r = item) (stocks db)")
      (simp_all add: add_sale_def run_session_def add_sale_try_def execute_def no_faults_def
        query_stock_first_def session_commit_def session_rollback_def open_session_def
        insert_sale_def Let_def)
qed

lemma add_sale_no_faults_ok:
  "\<not> isl (fst (add_sale no_faults today item qty unit_price total' customer db))"
  by (simp add: add_sale_no_faults)

text \<open>
  Claim C2. \<^verbatim>\<open>add_sale\<close> is all or nothing. It raises exactly when a statement it
  reaches fails (the insert of the sale, the stock query, the update of a stock row
  that exists, the commit); when it raises the store is the store before the call;
  when it returns, the store is the one of the run without failures, which holds the
  sale and the stock adjustment together.
\<close>

theorem add_sale_atomic:
  "isl (fst (add_sale fails today item qty unit_price total' customer db))
     = (fails Insert_Sale \<or> fails Select_Stock
        \<or> (item \<in> set (map stock_item (stocks db)) \<and> fails Update_Stock) \<or> fails Commit)
   \<and> (isl (fst (add_sale fails today item qty unit_price total' customer db)) \<longrightarrow>
        snd (add_sale fails today item qty unit_price total' customer db) = db)
   \<and> (\<not> isl (fst (add_sale fails today item qty unit_price total' customer db)) \<longrightarrow>
        add_sale fails today item qty unit_price total' customer db
          = add_sale no_faults today item qty unit_price total' customer db)"
  using add_sale_no_faults_ok [of today item qty unit_price total' customer db]
  by (simp add: add_sale_result [of fails])

theorem add_sale_atomic_witness:
  "isl (fst (add_sale update_fails 739001 ''Sugar'' 2 50 100 ''John'' sugar_store))
   \<and> snd (add_sale update_fails 739001 ''Sugar'' 2 50 100 ''John'' sugar_store) = sugar_store
   \<and> \<not> isl (fst (add_sale update_fails 739001 ''Unobtanium'' 1 1 1 ''X'' sugar_store))
   \<and> add_sale update_fails 739001 ''Unobtanium'' 1 1 1 ''X'' sugar_store
       = add_sale no_faults 739001 ''Unobtanium'' 1 1 1 ''X'' sugar_store"
  using add_sale_atomic [of update_fails 739001 "''Sugar''" 2 50 100 "''John''" sugar_store]
    add_sale_atomic [of update_fails 739001 "''Unobtanium''" 1 1 1 "''X''" sugar_store]
  by (simp add: update_fails_def sugar_store_def)

lemmas session_defs = run_session_def execute_def query_stock_first_def session_commit_def
  session_rollback_def open_session_def Let_def

lemma add_stock_safe_no_faults:
  "add_stock_safe no_faults today item qty threshold unit_cost db =
     (case find (\<lambda>r. stock_item r = item) (stocks db) of
        Some st \<Rightarrow>
          (Inr (stock_id st, False),
           put_stock (st\<lparr>stock_qty := qty, stock_threshold := threshold,
                          stock_unit_cost := unit_cost, stock_last_updated := today\<rparr>) db)
      | None \<Rightarrow>
          (Inr (next_id (map stock_id (stocks db)), True),
           insert_stock \<lparr>stock_id = next_id (map stock_id (stocks db)), stock_item = item,
                         stock_qty = qty, stock_threshold = threshold,
                         stock_unit_cost = unit_cost, stock_last_updated = today\<rparr> db))"
  by (simp add: add_stock_safe_def run_session_def add_stock_safe_try_def execute_def
      no_faults_def query_stock_first_def session_commit_def open_session_def Let_def
      split: option.splits)

lemma upsert_existing:
  assumes "stock_table_ok db" and "find (\<lambda>r. stock_item r = item) (stocks db) = Some st"
  shows "add_stock_safe no_faults today item qty threshold unit_cost db =
           (Inr (stock_id st, False),
            db\<lparr>stocks := map (\<lambda>r. if stock_item r = item
                                    then overwrite today qty threshold unit_cost r else r)
                             (stocks db)\<rparr>)"
proof -
  from assms(1) have d: "distinct (map stock_id (stocks db))" "distinct (map stock_item (stocks db))"
    by (simp_all add: stock_table_ok_def)
  note m = put_by_id_is_put_by_item [OF d assms(2), of "overwrite today qty threshold unit_cost",
      unfolded overwrite_def]
  show ?thesis
    unfolding overwrite_def
    by (simp add: add_stock_safe_no_faults put_stock_def assms(2) m)
qed

lemma upsert_absent:
  assumes "item \<notin> set (map stock_item (stocks db))"
  shows "add_stock_safe no_faults today item qty threshold unit_cost db =
           (Inr (next_id (map stock_id (stocks db)), True),
            db\<lparr>stocks := stocks db @
               [\<lparr>stock_id = next_id (map stock_id (stocks db)), stock_item = item,
                 stock_qty = qty, stock_threshold = threshold,
                 stock_unit_cost = unit_cost, stock_last_updated = today\<rparr>]\<rparr>)"
proof -
  from assms have "find (\<lambda>r. stock_item r = item) (stocks db) = None"
    by (auto simp: find_None_iff)
  then show ?thesis
    by (simp add: add_stock_safe_no_faults insert_stock_def)
qed

lemma map_overwrite_keys:
  "stock_id \<circ> (\<lambda>r. if stock_item r = item then overwrite t q th c r else r) = stock_id"
  "stock_item \<circ> (\<lambda>r. if stock_item r = item then overwrite t q th c r else r) = stock_item"
  by (auto simp: fun_eq_iff overwrite_def)

lemma upsert_keeps_constraints:
  assumes "stock_table_ok db"
  shows "stock_table_ok (snd (add_stock_safe no_faults today item qty threshold unit_cost db))"
proof (cases "find (\<lambda>r. stock_item r = item) (stocks db)")
  case None
  then have a: "item \<notin> set (map stock_item (stocks db))"
    by (auto simp: find_None_iff)
  show ?thesis
    using assms a next_id_fresh [of "map stock_id (stocks db)"]
    by (simp add: upsert_absent [OF a] stock_table_ok_def)
next
  case (Some st)
  show ?thesis
    using assms
    by (simp add: upsert_existing [OF assms Some] stock_table_ok_def map_overwrite_keys)
qed

lemma upsert_item_present:
  "item \<in> set (map stock_item (stocks (snd (add_stock_safe no_faults today item qty threshold unit_cost db))))"
proof (cases "find (\<lambda>r. stock_item r = item) (stocks db)")
  case None
  then have a: "item \<notin> set (map stock_item (stocks db))"
    by (auto simp: find_None_iff)
  show ?thesis by (simp add: upsert_absent [OF a])
next
  case (Some st)
  then have "st \<in> set (stocks db)" "stock_item st = item"
    by (auto simp: find_Some_iff)
  then show ?thesis
    using Some by (force simp: add_stock_safe_no_faults put_stock_def)
qed

lemma find_eq_filter: "find P xs = (case filter P xs of [] \<Rightarrow> None | x # _ \<Rightarrow> Some x)"
  by (induction xs) auto

lemma filter_unique_item:
  assumes "distinct (map stock_item rows)" and "find (\<lambda>r. stock_item r = item) rows = Some st"
  shows "filter (\<lambda>r. stock_item r = item) rows = [st]"
  using assms
proof (induction rows)
  case Nil
  then show ?case by simp
next
  case (Cons r rows)
  show ?case
  proof (cases "stock_item r = item")
    case True
    with Cons.prems have "r = st" and "item \<notin> stock_item ` set rows"
      by auto
    then have "filter (\<lambda>r. stock_item r = item) rows = []"
      by (auto simp: filter_empty_conv)
    with True \<open>r = st\<close> show ?thesis by simp
  next
    case False
    with Cons show ?thesis by simp
  qed
qed

lemma filter_map_overwrite:
  "filter (\<lambda>r. stock_item r = item)
     (map (\<lambda>r. if stock_item r = item then overwrite t q th c r else r) rows)
   = map (overwrite t q th c) (filter (\<lambda>r. stock_item r = item) rows)"
  by (induction rows) (auto simp: overwrite_def)

lemma overwrite_row:
  "overwrite t q th c r =
     \<lparr>stock_id = stock_id r, stock_item = stock_item r, stock_qty = q, stock_threshold = th,
      stock_unit_cost = c, stock_last_updated = t\<rparr>"
  by (cases r) (simp add: overwrite_def)

lemma upsert_row:
  assumes "stock_table_ok db"
  shows "\<exists>sid created.
           fst (add_stock_safe no_faults today item qty threshold unit_cost db) = Inr (sid, created)
         \<and> filter (\<lambda>r. stock_item r = item)
              (stocks (snd (add_stock_safe no_faults today item qty threshold unit_cost db)))
            = [\<lparr>stock_id = sid, stock_item = item, stock_qty = qty, stock_threshold = threshold,
                 stock_unit_cost = unit_cost, stock_last_updated = today\<rparr>]"
proof (cases "find (\<lambda>r. stock_item r = item) (stocks db)")
  case None
  then have a: "item \<notin> set (map stock_item (stocks db))"
    by (auto simp: find_None_iff)
  then have "filter (\<lambda>r. stock_item r = item) (stocks db) = []"
    by (auto simp: filter_empty_conv)
  with a show ?thesis
    by (auto simp add: upsert_absent [OF a])
next
  case (Some st)
  from assms have d: "distinct (map stock_item (stocks db))"
    by (simp add: stock_table_ok_def)
  from Some have "stock_item st = item" "item \<in> set (map stock_item (stocks db))"
    by (auto simp: find_Some_iff)
  then show ?thesis
    by (auto simp add: upsert_existing [OF assms Some] filter_map_overwrite
        filter_unique_item [OF d Some] overwrite_row)
qed

text \<open>
  Claim C7. \<^verbatim>\<open>add_stock_safe\<close> is a keyed upsert. On a stock table with at most one row
  per item (and per key) it leaves such a table and does not touch the sales. When a
  row of the item exists it returns that row's key with \<open>False\<close> and overwrites the
  row's quantity, threshold and unit cost and sets \<^verbatim>\<open>last_updated\<close> to today; when
  none exists it returns a fresh key with \<open>True\<close> and appends the new row. A second
  call with the same arguments returns the key of the first call with \<open>False\<close> and
  leaves exactly one row of the item, carrying the given values.
\<close>

theorem add_stock_safe_upsert:
  assumes "stock_table_ok db"
  shows "stock_table_ok (snd (add_stock_safe no_faults today item qty threshold unit_cost db))
    \<and> sales (snd (add_stock_safe no_faults today item qty threshold unit_cost db)) = sales db
    \<and> (\<forall>st. find (\<lambda>r. stock_item r = item) (stocks db) = Some st \<longrightarrow>
          fst (add_stock_safe no_faults today item qty threshold unit_cost db)
            = Inr (stock_id st, False)
        \<and> stocks (snd (add_stock_safe no_faults today item qty threshold unit_cost db))
            = map (\<lambda>r. if stock_item r = item
                        then overwrite today qty threshold unit_cost r else r) (stocks db))
    \<and> (item \<notin> set (map stock_item (stocks db)) \<longrightarrow>
          fst (add_stock_safe no_faults today item qty threshold unit_cost db)
            = Inr (next_id (map stock_id (stocks db)), True)
        \<and> next_id (map stock_id (stocks db)) \<notin> set (map stock_id (stocks db))
        \<and> stocks (snd (add_stock_safe no_faults today item qty threshold unit_cost db))
            = stocks db @
               [\<lparr>stock_id = next_id (map stock_id (stocks db)), stock_item = item,
                 stock_qty = qty, stock_threshold = threshold,
                 stock_unit_cost = unit_cost, stock_last_updated = today\<rparr>])
    \<and> (\<exists>sid created.
          fst (add_stock_safe no_faults today item qty threshold unit_cost db) = Inr (sid, created)
        \<and> fst (add_stock_safe no_faults today' item qty threshold unit_cost
                 (snd (add_stock_safe no_faults today item qty threshold unit_cost db)))
            = Inr (sid, False)
        \<and> filter (\<lambda>r. stock_item r = item)
             (stocks (snd (add_stock_safe no_faults today' item qty threshold unit_cost
                (snd (add_stock_safe no_faults today item qty threshold unit_cost db)))))
            = [\<lparr>stock_id = sid, stock_item = item, stock_qty = qty,
                 stock_threshold = threshold, stock_unit_cost = unit_cost,
                 stock_last_updated = today'\<rparr>])"
proof -
  let ?r1 = "add_stock_safe no_faults today item qty threshold unit_cost db"
  let ?db1 = "snd ?r1"
  let ?r2 = "add_stock_safe no_faults today' item qty threshold unit_cost ?db1"
  have ok1: "stock_table_ok ?db1"
    by (rule upsert_keeps_constraints [OF assms])
  have sales1: "sales ?db1 = sales db"
    by (simp add: add_stock_safe_no_faults put_stock_def insert_stock_def split: option.splits)
  have existing: "\<forall>st. find (\<lambda>r. stock_item r = item) (stocks db) = Some st \<longrightarrow>
          fst ?r1 = Inr (stock_id st, False)
        \<and> stocks ?db1 = map (\<lambda>r. if stock_item r = item
                        then overwrite today qty threshold unit_cost r else r) (stocks db)"
    by (simp add: upsert_existing [OF assms])
  have absent: "item \<notin> set (map stock_item (stocks db)) \<longrightarrow>
          fst ?r1 = Inr (next_id (map stock_id (stocks db)), True)
        \<and> next_id (map stock_id (stocks db)) \<notin> set (map stock_id (stocks db))
        \<and> stocks ?db1 = stocks db @
               [\<lparr>stock_id = next_id (map stock_id (stocks db)), stock_item = item,
                 stock_qty = qty, stock_threshold = threshold,
                 stock_unit_cost = unit_cost, stock_last_updated = today\<rparr>]"
    using next_id_fresh [of "map stock_id (stocks db)"] by (simp add: upsert_absent)
  from upsert_row [OF assms, of today item qty threshold unit_cost]
  obtain sid created where r1: "fst ?r1 = Inr (sid, created)"
    and f1: "filter (\<lambda>r. stock_item r = item) (stocks ?db1)
            = [\<lparr>stock_id = sid, stock_item = item, stock_qty = qty, stock_threshold = threshold,
                 stock_unit_cost = unit_cost, stock_last_updated = today\<rparr>]"
    by blast
  let ?row = "\<lparr>stock_id = sid, stock_item = item, stock_qty = qty, stock_threshold = threshold,
                 stock_unit_cost = unit_cost, stock_last_updated = today\<rparr>"
  have found: "find (\<lambda>r. stock_item r = item) (stocks ?db1) = Some ?row"
    by (simp add: find_eq_filter f1)
  have twice: "fst ?r2 = Inr (sid, False)
     \<and> filter (\<lambda>r. stock_item r = item) (stocks (snd ?r2))
            = [\<lparr>stock_id = sid, stock_item = item, stock_qty = qty,
                 stock_threshold = threshold, stock_unit_cost = unit_cost,
                 stock_last_updated = today'\<rparr>]"
    by (simp add: upsert_existing [OF ok1 found] filter_map_overwrite f1 overwrite_row)
  from r1 twice have "\<exists>sid created. fst ?r1 = Inr (sid, created) \<and> fst ?r2 = Inr (sid, False)
     \<and> filter (\<lambda>r. stock_item r = item) (stocks (snd ?r2))
            = [\<lparr>stock_id = sid, stock_item = item, stock_qty = qty,
                 stock_threshold = threshold, stock_unit_cost = unit_cost,
                 stock_last_updated = today'\<rparr>]"
    by blast
  with ok1 sales1 existing absent show ?thesis
    by blast
qed

theorem add_stock_safe_upsert_witness:
  "stock_table_ok empty_store
   \<and> add_stock_safe no_faults 739000 ''Sugar'' 10 5 40 empty_store = (Inr (1, True), sugar_store)
   \<and> fst (add_stock_safe no_faults 739001 ''Sugar'' 10 5 40 sugar_store) = Inr (1, False)
   \<and> stocks (snd (add_stock_safe no_faults 739001 ''Sugar'' 10 5 40 sugar_store))
       = [\<lparr>stock_id = 1, stock_item = ''Sugar'', stock_qty = 10, stock_threshold = 5,
           stock_unit_cost = 40, stock_last_updated = 739001\<rparr>]
   \<and> stock_table_ok (snd (add_stock_safe no_faults 739001 ''Sugar'' 10 5 40 sugar_store))"
proof -
  have ok: "stock_table_ok empty_store"
    by (simp add: stock_table_ok_def empty_store_def)
  have ok': "stock_table_ok sugar_store"
    by (simp add: stock_table_ok_def sugar_store_def)
  have absent: "''Sugar'' \<notin> set (map stock_item (stocks empty_store))"
    by (simp add: empty_store_def)
  have nid: "next_id (map stock_id (stocks empty_store)) = 1"
    by (simp add: next_id_def empty_store_def)
  have found: "find (\<lambda>r. stock_item r = ''Sugar'') (stocks sugar_store)
     = Some \<lparr>stock_id = 1, stock_item = ''Sugar'', stock_qty = 10, stock_threshold = 5,
           stock_unit_cost = 40, stock_last_updated = 739000\<rparr>"
    by (simp add: sugar_store_def)
  note a = add_stock_safe_upsert [OF ok, of 739000 "''Sugar''" 10 5 40 739001]
  note b = add_stock_safe_upsert [OF ok', of 739001 "''Sugar''" 10 5 40 739001]
  from a absent nid have a1: "fst (add_stock_safe no_faults 739000 ''Sugar'' 10 5 40 empty_store) = Inr (1, True)"
    by simp
  from a absent nid have a2: "stocks (snd (add_stock_safe no_faults 739000 ''Sugar'' 10 5 40 empty_store))
      = stocks sugar_store"
    by (simp add: sugar_store_def empty_store_def)
  from a have a3: "sales (snd (add_stock_safe no_faults 739000 ''Sugar'' 10 5 40 empty_store))
      = sales sugar_store"
    by (simp add: sugar_store_def empty_store_def)
  from a1 a2 a3 have first: "add_stock_safe no_faults 739000 ''Sugar'' 10 5 40 empty_store
      = (Inr (1, True), sugar_store)"
    by (simp add: prod_eq_iff)
  from b found have b1: "fst (add_stock_safe no_faults 739001 ''Sugar'' 10 5 40 sugar_store) = Inr (1, False)"
    by simp
  from b found have b2: "stocks (snd (add_stock_safe no_faults 739001 ''Sugar'' 10 5 40 sugar_store))
       = [\<lparr>stock_id = 1, stock_item = ''Sugar'', stock_qty = 10, stock_threshold = 5,
           stock_unit_cost = 40, stock_last_updated = 739001\<rparr>]"
    by (simp add: sugar_store_def overwrite_def)
  from b have b3: "stock_table_ok (snd (add_stock_safe no_faults 739001 ''Sugar'' 10 5 40 sugar_store))"
    by blast
  from ok first b1 b2 b3 show ?thesis by blast
qed

text \<open>
  Claim C9. For every item, quantity, threshold and unit cost, every starting store
  and every choice of failing statements, the first \<^verbatim>\<open>StockService.update_stock\<close>,
  the second one and \<^verbatim>\<open>BillingService.add_stock_safe\<close> leave the same store, and
  one raises exactly when the others do.
\<close>

theorem stock_upserts_agree:
  "snd (update_stock_first fails today item qty threshold unit_cost db)
     = snd (add_stock_safe fails today item qty threshold unit_cost db)
   \<and> snd (update_stock_second fails today item qty threshold unit_cost db)
     = snd (add_stock_safe fails today item qty threshold unit_cost db)
   \<and> isl (fst (update_stock_first fails today item qty threshold unit_cost db))
     = isl (fst (add_stock_safe fails today item qty threshold unit_cost db))
   \<and> isl (fst (update_stock_second fails today item qty threshold unit_cost db))
     = isl (fst (add_stock_safe fails today item qty threshold unit_cost db))"
  by (cases "find (\<lambda>r. stock_item r = item) (stocks db)")
    (simp_all add: update_stock_first_def update_stock_first_try_def update_stock_second_def
      update_stock_second_try_def add_stock_safe_def add_stock_safe_try_def session_defs)

theorem stock_upserts_agree_witness:
  "snd (update_stock_first no_faults 739001 ''Sugar'' 5 10 40 sugar_store)
     = snd (add_stock_safe no_faults 739001 ''Sugar'' 5 10 40 sugar_store)
   \<and> snd (update_stock_second no_faults 739001 ''Sugar'' 5 10 40 sugar_store)
     = snd (add_stock_safe no_faults 739001 ''Sugar'' 5 10 40 sugar_store)
   \<and> stocks (snd (update_stock_second no_faults 739001 ''Sugar'' 5 10 40 sugar_store))
     = [\<lparr>stock_id = 1, stock_item = ''Sugar'', stock_qty = 5, stock_threshold = 10,
          stock_unit_cost = 40, stock_last_updated = 739001\<rparr>]"
proof -
  have "stocks (snd (add_stock_safe no_faults 739001 ''Sugar'' 5 10 40 sugar_store))
     = [\<lparr>stock_id = 1, stock_item = ''Sugar'', stock_qty = 5, stock_threshold = 10,
          stock_unit_cost = 40, stock_last_updated = 739001\<rparr>]"
    by (simp add: add_stock_safe_def add_stock_safe_try_def session_defs no_faults_def
        sugar_store_def put_stock_def)
  with stock_upserts_agree [of no_faults 739001 "''Sugar''" 5 10 40 sugar_store]
  show ?thesis by simp
qed

lemma trailing_days_7: "trailing_days d 7 = [d - 6, d - 5, d - 4, d - 3, d - 2, d - 1, d]"
  by (simp add: trailing_days_def upt_rec numeral_nat)

text \<open>
  Claim C8, as stated, fails: with two sales of 100 and 60 on one day of the window
  \<^verbatim>\<open>get_sales_forecast\<close> returns 560, seven times the average per sale row, where
  the average of per-day totals times 7 is 160 (over the seven days) or 1120 (over
  the days with a sale), whether the seven days end today or yesterday.
\<close>

theorem forecast_per_day_counterexample:
  "get_sales_forecast 739001 two_sales_store = 560
   \<and> forecast_per_day 739001 two_sales_store = 160
   \<and> forecast_per_day 739000 two_sales_store = 160
   \<and> forecast_per_selling_day 739001 two_sales_store = 1120
   \<and> forecast_per_selling_day 739000 two_sales_store = 1120"
  by (simp add: get_sales_forecast_def sql_avg_def or_zero_def two_sales_store_def
      forecast_per_day_def forecast_per_selling_day_def day_total_def trailing_days_7)

text \<open>
  Claim C8, amended. \<^verbatim>\<open>get_sales_forecast\<close> returns seven times the average of
  \<^verbatim>\<open>total\<close> over the sale rows dated today minus 7 days or later, and 0 when there
  is no such row; in particular it returns 0 when every sale is older than that.
\<close>

theorem get_sales_forecast_row_average:
  "get_sales_forecast today db =
     (if filter (\<lambda>s. today - 7 \<le> sale_date s) (sales db) = [] then 0
      else sum_list (map sale_total (filter (\<lambda>s. today - 7 \<le> sale_date s) (sales db)))
             / real (length (filter (\<lambda>s. today - 7 \<le> sale_date s) (sales db))) * 7)
   \<and> ((\<forall>s \<in> set (sales db). sale_date s < today - 7) \<longrightarrow> get_sales_forecast today db = 0)"
proof -
  have "(\<forall>s \<in> set (sales db). sale_date s < today - 7) \<Longrightarrow>
      filter (\<lambda>s. today - 7 \<le> sale_date s) (sales db) = []"
    by (auto simp: filter_empty_conv)
  then show ?thesis
    by (auto simp add: get_sales_forecast_def sql_avg_def or_zero_def Let_def)
qed

theorem get_sales_forecast_row_average_witness:
  "get_sales_forecast 739001 two_sales_store = (100 + 60) / 2 * 7
   \<and> get_sales_forecast 739008 two_sales_store = 0"
  using get_sales_forecast_row_average [of 739001 two_sales_store]
    get_sales_forecast_row_average [of 739008 two_sales_store]
  by (simp add: two_sales_store_def)

section \<open>Properties of the import normalizer\<close>

subsection \<open>Header resolution\<close>

lemma space_not_upper: "is_space v \<Longrightarrow> lower_char v = v"
  by (auto simp: is_space_def lower_char_def Let_def)

lemma variant_char_clean:
  assumes "variant_char v c" and "clean_char c"
  shows "(if (if lower_char v = CHR '' '' then CHR ''_'' else lower_char v) = CHR ''-'' then CHR ''_''
          else (if lower_char v = CHR '' '' then CHR ''_'' else lower_char v)) = c"
proof -
  have sp: "lower_char CHR '' '' = CHR '' ''" and hy: "lower_char CHR ''-'' = CHR ''-''"
    by (simp_all add: lower_char_def)
  from assms show ?thesis
    by (auto simp: variant_char_def clean_char_def sp hy)
qed

lemma variant_not_space:
  assumes "variant_char v c" and "clean_char c" and "c \<noteq> CHR ''_''"
  shows "\<not> is_space v"
proof
  assume "is_space v"
  then have "lower_char v = v" by (rule space_not_upper)
  with assms \<open>is_space v\<close> show False
    by (auto simp: variant_char_def clean_char_def)
qed

lemma clean_core:
  assumes "list_all2 variant_char core s" and "list_all clean_char s"
  shows "str_replace CHR ''-'' CHR ''_'' (str_replace CHR '' '' CHR ''_'' (str_lower core)) = s"
  using assms
proof (induction core s rule: list_all2_induct)
  case Nil
  then show ?case by (simp add: str_replace_def str_lower_def)
next
  case (Cons v core c s)
  then show ?case
    using variant_char_clean [of v c]
    by (simp add: str_replace_def str_lower_def)
qed

lemma dropWhile_spaces:
  assumes "list_all is_space pre" and "xs \<noteq> []" and "\<not> is_space (hd xs)"
  shows "dropWhile is_space (pre @ xs) = xs"
proof -
  from assms(1) have "dropWhile is_space (pre @ xs) = dropWhile is_space xs"
    by (simp add: dropWhile_append2 list_all_iff)
  also from assms(2,3) have "\<dots> = xs"
    by (cases xs) simp_all
  finally show ?thesis .
qed

lemma strip_padded:
  assumes "list_all is_space pre" and "list_all is_space suf"
    and "core \<noteq> []" and "\<not> is_space (hd core)" and "\<not> is_space (last core)"
  shows "str_strip (pre @ core @ suf) = core"
proof -
  have 1: "dropWhile is_space (pre @ core @ suf) = core @ suf"
    using assms(1,3,4) by (intro dropWhile_spaces) simp_all
  have 2: "dropWhile is_space (rev suf @ rev core) = rev core"
    using assms(2,3,5) by (intro dropWhile_spaces) (simp_all add: hd_rev list_all_iff)
  show ?thesis
    by (simp add: str_strip_def 1 2)
qed

lemma clean_col_variant:
  assumes "header_variant pre core suf s" and "clean_name s"
  shows "clean_col (pre @ core @ suf) = s"
proof -
  from assms have v: "list_all2 variant_char core s" and pre: "list_all is_space pre"
    and suf: "list_all is_space suf" and cs: "list_all clean_char s" and ne: "s \<noteq> []"
    and h: "hd s \<noteq> CHR ''_''" and l: "last s \<noteq> CHR ''_''"
    by (simp_all add: header_variant_def clean_name_def)
  from v ne have cne: "core \<noteq> []" by auto
  from v have len: "length core = length s" by (rule list_all2_lengthD)
  have hd: "variant_char (hd core) (hd s)"
    using v ne cne by (cases core; cases s) simp_all
  have la: "variant_char (last core) (last s)"
    using v ne cne len by (simp add: last_conv_nth list_all2_nthD)
  have "clean_char (hd s)" "clean_char (last s)"
    using cs ne by (simp_all add: list_all_iff)
  with hd la h l have "\<not> is_space (hd core)" "\<not> is_space (last core)"
    by (auto dest: variant_not_space)
  with pre suf cne have "str_strip (pre @ core @ suf) = core"
    by (intro strip_padded)
  with clean_core [OF v cs] show ?thesis
    by (simp add: clean_col_def)
qed

lemma fold_columns:
  "fold (\<lambda>c m. if P c then m(c \<mapsto> t) else m) cols m
     = (\<lambda>x. if x \<in> set cols \<and> P x then Some t else m x)"
  by (induction cols arbitrary: m) (auto simp: fun_eq_iff)

lemma rename_map_fold:
  "fold (\<lambda>(target, syns) m.
             fold (\<lambda>c m. if c = target \<or> c \<in> set syns then m(c \<mapsto> target) else m) cols m)
        mapping m0
   = (\<lambda>x. if x \<in> set cols
           then fold (\<lambda>(target, syns) r. if x = target \<or> x \<in> set syns then Some target else r)
                  mapping (m0 x)
           else m0 x)"
proof (induction mapping arbitrary: m0)
  case Nil
  then show ?case by (simp add: fun_eq_iff)
next
  case (Cons e mapping)
  obtain target syns where e: "e = (target, syns)" by (cases e)
  show ?case
    by (simp add: e Cons.IH fold_columns [of "\<lambda>c. c = target \<or> c \<in> set syns"] fun_eq_iff)
qed

lemma rename_map_lookup:
  "rename_map cols mapping c = (if c \<in> set cols then lookup_target mapping c else None)"
  by (simp add: rename_map_def lookup_target_def rename_map_fold)

lemma labels_rename:
  "labels (rename_with_synonyms df mapping)
     = map (\<lambda>h. case lookup_target mapping (clean_col h) of None \<Rightarrow> clean_col h | Some t \<Rightarrow> t)
         (labels df)"
  by (simp add: rename_with_synonyms_def labels_def Let_def clean_cols_def rename_map_lookup
      comp_def cong: map_cong)

lemma cells_rename:
  "map snd (df_columns (rename_with_synonyms df mapping)) = map snd (df_columns df)"
  by (simp add: rename_with_synonyms_def labels_def Let_def clean_cols_def)

lemma index_rename: "df_index (rename_with_synonyms df mapping) = df_index df"
  by (simp add: rename_with_synonyms_def Let_def)

lemma resolves_all_sales: "resolves_all sales_mapping"
  by code_simp

lemma resolves_all_inventory: "resolves_all inventory_mapping"
  by code_simp

lemma resolves_all_expenses: "resolves_all expenses_mapping"
  by code_simp

lemma resolves_allD:
  assumes "resolves_all mapping" and "(target, syns) \<in> set mapping" and "s \<in> set (target # syns)"
  shows "clean_name s \<and> lookup_target mapping s = Some target"
  using assms unfolding resolves_all_def list_all_iff by fastforce

text \<open>
  Claim C5. For each of the three schemas, every name in the synonym table (a target
  or one of its synonyms) and every header that is a casing, white-space, space or
  hyphen variant of the name: cleaning the header gives the name, and
  \<^verbatim>\<open>_rename_with_synonyms\<close> labels the column with the name's target and leaves its
  cells as they are.
\<close>

theorem synonym_variants_resolve:
  assumes "mapping \<in> set [sales_mapping, inventory_mapping, expenses_mapping]"
    and "(target, syns) \<in> set mapping" and "s \<in> set (target # syns)"
    and "header_variant pre core suf s"
    and "k < length (df_columns df)" and "fst (df_columns df ! k) = pre @ core @ suf"
  shows "clean_col (pre @ core @ suf) = s
       \<and> fst (df_columns (rename_with_synonyms df mapping) ! k) = target
       \<and> snd (df_columns (rename_with_synonyms df mapping) ! k) = snd (df_columns df ! k)"
proof -
  from assms(1) have "resolves_all mapping"
    using resolves_all_sales resolves_all_inventory resolves_all_expenses by auto
  from resolves_allD [OF this assms(2,3)]
  have cn: "clean_name s" and lk: "lookup_target mapping s = Some target"
    by simp_all
  have cl: "clean_col (pre @ core @ suf) = s"
    by (rule clean_col_variant [OF assms(4) cn])
  have len: "length (df_columns (rename_with_synonyms df mapping)) = length (df_columns df)"
    using arg_cong [OF cells_rename [of df mapping], of length] by simp
  have k: "k < length (labels df)" and h: "labels df ! k = pre @ core @ suf"
    using assms(5,6) by (simp_all add: labels_def)
  have "fst (df_columns (rename_with_synonyms df mapping) ! k)
      = labels (rename_with_synonyms df mapping) ! k"
    using assms(5) len by (simp add: labels_def)
  also have "\<dots> = target"
    using k h cl lk by (simp add: labels_rename)
  finally have 1: "fst (df_columns (rename_with_synonyms df mapping) ! k) = target" .
  have "snd (df_columns (rename_with_synonyms df mapping) ! k)
      = map snd (df_columns (rename_with_synonyms df mapping)) ! k"
    using assms(5) len by simp
  also have "\<dots> = snd (df_columns df ! k)"
    using assms(5) by (simp add: cells_rename)
  finally show ?thesis using cl 1 by simp
qed

theorem synonym_variants_resolve_witness:
  "header_variant [] ''Product Name'' [] ''product_name''
   \<and> header_variant ''  '' ''product-name'' [] ''product_name''
   \<and> header_variant [] ''PRODUCT_NAME'' '' '' ''product_name''
   \<and> df_columns (rename_with_synonyms three_headers_frame sales_mapping) ! 0
        = (''item'', [Str ''Sugar''])
   \<and> df_columns (rename_with_synonyms three_headers_frame sales_mapping) ! 1
        = (''item'', [Str ''Rice''])
   \<and> df_columns (rename_with_synonyms three_headers_frame sales_mapping) ! 2
        = (''item'', [Str ''Tea''])"
proof -
  have m: "sales_mapping \<in> set [sales_mapping, inventory_mapping, expenses_mapping]"
    by simp
  have t: "(''item'', [''product'', ''product_name'', ''item_name'', ''name'', ''sku'', ''title''])
      \<in> set sales_mapping"
    by (simp add: sales_mapping_def)
  have s: "''product_name'' \<in> set (''item'' # [''product'', ''product_name'', ''item_name'', ''name'', ''sku'', ''title''])"
    by simp
  have v0: "header_variant [] ''Product Name'' [] ''product_name''"
    by code_simp
  have v1: "header_variant ''  '' ''product-name'' [] ''product_name''"
    by code_simp
  have v2: "header_variant [] ''PRODUCT_NAME'' '' '' ''product_name''"
    by code_simp
  note r0 = synonym_variants_resolve [OF m t s v0, of 0 three_headers_frame]
  note r1 = synonym_variants_resolve [OF m t s v1, of 1 three_headers_frame]
  note r2 = synonym_variants_resolve [OF m t s v2, of 2 three_headers_frame]
  have c0: "df_columns (rename_with_synonyms three_headers_frame sales_mapping) ! 0 = (''item'', [Str ''Sugar''])"
    using r0 by (simp add: three_headers_frame_def prod_eq_iff)
  have c1: "df_columns (rename_with_synonyms three_headers_frame sales_mapping) ! 1 = (''item'', [Str ''Rice''])"
    using r1 by (simp add: three_headers_frame_def prod_eq_iff)
  have c2: "df_columns (rename_with_synonyms three_headers_frame sales_mapping) ! 2 = (''item'', [Str ''Tea''])"
    using r2 by (simp add: three_headers_frame_def prod_eq_iff)
  from v0 v1 v2 c0 c1 c2 show ?thesis by blast
qed

subsection \<open>Frames and the steps of a normalizer\<close>

lemma named_setitem_list:
  "map snd (filter (\<lambda>p. fst p = c') (map (\<lambda>p. if fst p = c then (c, s) else p) ps))
     = (if c' = c then map (\<lambda>x. s) (filter (\<lambda>p. fst p = c) ps)
        else map snd (filter (\<lambda>p. fst p = c') ps))"
  by (induction ps) auto

lemma label_iff_named: "c \<in> set (labels df) \<longleftrightarrow> cols_named df c \<noteq> []"
  by (auto simp: labels_def cols_named_def filter_empty_conv)

lemma cols_named_setitem:
  "cols_named (df_setitem df c s) c'
     = (if c' = c then (if cols_named df c = [] then [s] else map (\<lambda>x. s) (cols_named df c))
        else cols_named df c')"
proof (cases "c \<in> set (labels df)")
  case True
  then show ?thesis
    using label_iff_named [of c df]
    by (simp add: df_setitem_def cols_named_def named_setitem_list)
next
  case False
  then show ?thesis
    using label_iff_named [of c df]
    by (auto simp: df_setitem_def cols_named_def)
qed

lemma index_setitem: "df_index (df_setitem df c s) = df_index df"
  by (simp add: df_setitem_def)

lemma cols_named_filter: "cols_named (df_filter f df) c = map (keep f) (cols_named df c)"
  by (simp add: df_filter_def cols_named_def filter_map comp_def)

lemma index_filter: "df_index (df_filter f df) = keep f (df_index df)"
  by (simp add: df_filter_def)

lemma fillna_after_astype: "fillna (Str '''') (astype_str num_str c) = astype_str num_str c"
  by (cases c) (simp_all add: fillna_def astype_str_def)

lemma text_cell_fun: "(\<lambda>x. strip_cell (astype_str num_str x)) = text_cell num_str"
  by (simp add: fun_eq_iff text_cell_def)

lemma number_cell_fun: "(\<lambda>x. fillna (Num d) (to_numeric_cell parse x)) = number_cell parse d"
  by (simp add: fun_eq_iff number_cell_def)

lemma assign_stripped_one:
  assumes "cols_named df c = [s]"
  shows "assign_stripped num_str c df = Inr (df_setitem df c (map (text_cell num_str) s))"
  using assms
  by (simp add: assign_stripped_def df_getitem_def and_then_def sel_map_def str_accessor_def
      text_cell_fun comp_def)

lemma assign_stripped_filled_one:
  assumes "cols_named df c = [s]"
  shows "assign_stripped_filled num_str c df = Inr (df_setitem df c (map (text_cell num_str) s))"
  using assms
  by (simp add: assign_stripped_filled_def df_getitem_def and_then_def sel_map_def
      str_accessor_def text_cell_fun comp_def fillna_after_astype)

lemma assign_numeric_one:
  assumes "cols_named df c = [s]"
  shows "assign_numeric parse d c df = Inr (df_setitem df c (map (number_cell parse d) s))"
  using assms
  by (simp add: assign_numeric_def df_getitem_def and_then_def to_numeric_def number_cell_fun
      comp_def)

lemma keep_nonblank_one:
  assumes "cols_named df c = [s]"
  shows "keep_nonblank c df = Inr (df_filter (map len_positive s) df)"
  using assms
  by (simp add: keep_nonblank_def df_getitem_def and_then_def str_accessor_def)

lemma positive_mask_numeric:
  "list_all is_num cs \<Longrightarrow> positive_mask cs = Inr (map is_positive cs)"
proof (induction cs)
  case Nil
  then show ?case by simp
next
  case (Cons c cs)
  then show ?case
    by (cases c) (simp_all add: is_num_def is_positive_def and_then_def)
qed

lemma keep_positive_one:
  assumes "cols_named df c = [s]" and "list_all is_num s"
  shows "keep_positive c df = Inr (df_filter (map is_positive s) df)"
  using assms
  by (simp add: keep_positive_def df_getitem_def and_then_def gt_zero_def positive_mask_numeric)

lemma number_cell_is_num: "is_num (number_cell parse d c)"
  by (cases c) (simp_all add: number_cell_def fillna_def to_numeric_cell_def is_num_def
      split: option.splits)

lemma keep_all: "list_all P xs \<Longrightarrow> list_all P (keep f xs)"
  by (auto simp: keep_def list_all_iff dest: set_zip_rightD)

lemma keep_keep:
  "keep (map P (keep f ys)) (keep f xs) = keep (map (\<lambda>(a, y). a \<and> P y) (zip f ys)) xs"
proof (induction f arbitrary: ys xs)
  case Nil
  then show ?case by (simp add: keep_def)
next
  case (Cons a f)
  show ?case
  proof (cases ys)
    case Nil
    then show ?thesis by (simp add: keep_def)
  next
    case ys: (Cons y ys')
    show ?thesis
    proof (cases xs)
      case Nil
      then show ?thesis by (simp add: keep_def)
    next
      case xs: (Cons x xs')
      from Cons.IH [of ys' xs'] show ?thesis
        by (simp add: keep_def ys xs)
    qed
  qed
qed

lemma keep_zip: "zip (keep f xs) (keep f ys) = keep f (zip xs ys)"
proof (induction f arbitrary: xs ys)
  case Nil
  then show ?case by (simp add: keep_def)
next
  case (Cons a f)
  show ?case
  proof (cases xs)
    case Nil
    then show ?thesis by (simp add: keep_def)
  next
    case xs: (Cons x xs')
    show ?thesis
    proof (cases ys)
      case Nil
      then show ?thesis by (simp add: keep_def xs)
    next
      case ys: (Cons y ys')
      from Cons.IH [of xs' ys'] show ?thesis
        by (simp add: keep_def ys xs)
    qed
  qed
qed

lemma keep_map_filter: "keep (map P xs) ys = map snd (filter (\<lambda>p. P (fst p)) (zip xs ys))"
  by (simp add: keep_def zip_map1 filter_map comp_def case_prod_beta)

lemma named_one_filter:
  assumes "cols_named df c = [s]"
  shows "filter (\<lambda>p. fst p = c) (df_columns df) = [(c, s)]"
proof -
  from assms have m: "map snd (filter (\<lambda>p. fst p = c) (df_columns df)) = [s]"
    by (simp add: cols_named_def)
  then obtain p where p: "filter (\<lambda>p. fst p = c) (df_columns df) = [p]" and "snd p = s"
    by (cases "filter (\<lambda>p. fst p = c) (df_columns df)") auto
  from p have "p \<in> set (filter (\<lambda>p. fst p = c) (df_columns df))" by simp
  then have "fst p = c" by simp
  with p \<open>snd p = s\<close> show ?thesis by (simp add: prod_eq_iff)
qed

lemma column_one: "cols_named df c = [s] \<Longrightarrow> column df c = s"
  by (simp add: column_def)

lemma sales_coerce_closed:
  assumes "cols_named df ''item'' = [its]" and "cols_named df ''customer'' = [cus]"
    and "cols_named df ''qty'' = [qs]" and "cols_named df ''unit_price'' = [ps]"
  shows "\<exists>cdf. sales_coerce parse num_str df = Inr cdf
     \<and> df_index cdf = df_index df
     \<and> cols_named cdf ''item'' = [map (text_cell num_str) its]
     \<and> cols_named cdf ''customer'' = [map (text_cell num_str) cus]
     \<and> cols_named cdf ''qty'' = [map (number_cell parse 1) qs]
     \<and> cols_named cdf ''unit_price'' = [map (number_cell parse 0) ps]"
proof -
  define df1 where "df1 = df_setitem df ''item'' (map (text_cell num_str) its)"
  define df2 where "df2 = df_setitem df1 ''customer'' (map (text_cell num_str) cus)"
  define df3 where "df3 = df_setitem df2 ''qty'' (map (number_cell parse 1) qs)"
  define df4 where "df4 = df_setitem df3 ''unit_price'' (map (number_cell parse 0) ps)"
  have s1: "assign_stripped num_str ''item'' df = Inr df1"
    unfolding df1_def by (rule assign_stripped_one [OF assms(1)])
  have c1: "cols_named df1 ''customer'' = [cus]"
    using assms by (simp add: df1_def cols_named_setitem)
  have s2: "assign_stripped_filled num_str ''customer'' df1 = Inr df2"
    unfolding df2_def by (rule assign_stripped_filled_one [OF c1])
  have c2: "cols_named df2 ''qty'' = [qs]"
    using assms by (simp add: df2_def df1_def cols_named_setitem)
  have s3: "assign_numeric parse 1 ''qty'' df2 = Inr df3"
    unfolding df3_def by (rule assign_numeric_one [OF c2])
  have c3: "cols_named df3 ''unit_price'' = [ps]"
    using assms by (simp add: df3_def df2_def df1_def cols_named_setitem)
  have s4: "assign_numeric parse 0 ''unit_price'' df3 = Inr df4"
    unfolding df4_def by (rule assign_numeric_one [OF c3])
  have run: "sales_coerce parse num_str df = Inr df4"
    by (simp add: sales_coerce_def and_then_def s1 s2 s3 s4)
  have "df_index df4 = df_index df"
    by (simp add: df4_def df3_def df2_def df1_def index_setitem)
  moreover have "cols_named df4 ''item'' = [map (text_cell num_str) its]"
    using assms by (simp add: df4_def df3_def df2_def df1_def cols_named_setitem)
  moreover have "cols_named df4 ''customer'' = [map (text_cell num_str) cus]"
    using assms by (simp add: df4_def df3_def df2_def df1_def cols_named_setitem)
  moreover have "cols_named df4 ''qty'' = [map (number_cell parse 1) qs]"
    using assms by (simp add: df4_def df3_def df2_def df1_def cols_named_setitem)
  moreover have "cols_named df4 ''unit_price'' = [map (number_cell parse 0) ps]"
    using assms by (simp add: df4_def df3_def df2_def df1_def cols_named_setitem)
  ultimately show ?thesis using run by blast
qed

lemma df_select_four:
  assumes "cols_named df a = [sa]" and "cols_named df b = [sb]"
    and "cols_named df c = [sc]" and "cols_named df d = [sd]"
  shows "\<exists>out. df_select df [a, b, c, d] = Inr out \<and> df_index out = df_index df
     \<and> df_columns out = [(a, sa), (b, sb), (c, sc), (d, sd)]"
proof -
  have "list_all (\<lambda>c. c \<in> set (labels df)) [a, b, c, d]"
    using assms by (simp add: label_iff_named)
  then show ?thesis
    by (simp add: df_select_def named_one_filter [OF assms(1)] named_one_filter [OF assms(2)]
        named_one_filter [OF assms(3)] named_one_filter [OF assms(4)])
qed

lemma keep_both:
  "keep (map is_positive (keep (map len_positive ts) ns)) (keep (map len_positive ts) xs)
     = keep (both_flags ts ns) xs"
  by (simp add: keep_keep both_flags_def zip_map1 comp_def split_def)

lemma sales_filters_closed:
  assumes "cols_named cdf ''item'' = [its]" and "cols_named cdf ''customer'' = [cus]"
    and "cols_named cdf ''qty'' = [qs]" and "cols_named cdf ''unit_price'' = [ps]"
    and "list_all is_num qs"
  shows "\<exists>out. sales_filters cdf = Inr out
     \<and> df_index out = keep (both_flags its qs) (df_index cdf)
     \<and> df_columns out = [(''item'', keep (both_flags its qs) its),
                          (''qty'', keep (both_flags its qs) qs),
                          (''unit_price'', keep (both_flags its qs) ps),
                          (''customer'', keep (both_flags its qs) cus)]"
proof -
  let ?f1 = "map len_positive its"
  define df1 where "df1 = df_filter ?f1 cdf"
  let ?f2 = "map is_positive (keep ?f1 qs)"
  define df2 where "df2 = df_filter ?f2 df1"
  have s1: "keep_nonblank ''item'' cdf = Inr df1"
    unfolding df1_def by (rule keep_nonblank_one [OF assms(1)])
  have q1: "cols_named df1 ''qty'' = [keep ?f1 qs]"
    by (simp add: df1_def cols_named_filter assms)
  have "list_all is_num (keep ?f1 qs)"
    by (rule keep_all [OF assms(5)])
  with q1 have s2: "keep_positive ''qty'' df1 = Inr df2"
    unfolding df2_def by (rule keep_positive_one)
  have cols: "cols_named df2 ''item'' = [keep (both_flags its qs) its]"
    "cols_named df2 ''qty'' = [keep (both_flags its qs) qs]"
    "cols_named df2 ''unit_price'' = [keep (both_flags its qs) ps]"
    "cols_named df2 ''customer'' = [keep (both_flags its qs) cus]"
    by (simp_all add: df2_def df1_def cols_named_filter assms keep_both)
  have idx: "df_index df2 = keep (both_flags its qs) (df_index cdf)"
    by (simp add: df2_def df1_def index_filter keep_both)
  from df_select_four [OF cols]
  obtain out where "df_select df2 [''item'', ''qty'', ''unit_price'', ''customer''] = Inr out"
    and "df_index out = df_index df2"
    and "df_columns out = [(''item'', keep (both_flags its qs) its),
                          (''qty'', keep (both_flags its qs) qs),
                          (''unit_price'', keep (both_flags its qs) ps),
                          (''customer'', keep (both_flags its qs) cus)]"
    by blast
  with idx show ?thesis
    by (simp add: sales_filters_def and_then_def s1 s2)
qed

subsection \<open>The sales normalizer\<close>

lemma index_ensure: "df_index (ensure_column cd df) = df_index df"
  by (simp add: ensure_column_def index_setitem)

lemma index_sales_resolved: "df_index (sales_resolved df) = df_index df"
  by (simp add: sales_resolved_def index_ensure index_rename)

lemma keep_rows:
  "zip (keep f i) (zip (keep f a) (zip (keep f b) (zip (keep f c) (keep f d))))
     = keep f (zip i (zip a (zip b (zip c d))))"
  by (simp add: keep_zip)

lemma keep_both_rows:
  "keep (both_flags a b) (zip i (zip a (zip b r)))
     = filter (\<lambda>(i, a, b, r). len_positive a \<and> is_positive b) (zip i (zip a (zip b r)))"
proof (induction a arbitrary: i b r)
  case Nil
  then show ?case by (simp add: keep_def both_flags_def)
next
  case (Cons x a)
  show ?case
  proof (cases i)
    case Nil
    then show ?thesis by (simp add: keep_def both_flags_def)
  next
    case i: (Cons i0 i')
    show ?thesis
    proof (cases b)
      case Nil
      then show ?thesis by (simp add: keep_def both_flags_def i)
    next
      case b: (Cons y b')
      show ?thesis
      proof (cases r)
        case Nil
        then show ?thesis by (simp add: keep_def both_flags_def i b)
      next
        case r: (Cons z r')
        from Cons.IH show ?thesis
          by (simp add: keep_def both_flags_def i b r)
      qed
    qed
  qed
qed

lemma zip_map_both: "zip (map k xs) (map l ys) = map (map_prod k l) (zip xs ys)"
  by (simp add: zip_map_map map_prod_def)

lemma zip_map_right: "zip xs (map l ys) = map (map_prod id l) (zip xs ys)"
  using zip_map_both [of id xs l ys] by simp

lemma map_rows:
  "zip i (zip (map f a) (zip (map g b) (zip (map h c) (map k d))))
     = map (\<lambda>(i, a, b, c, d). (i, f a, g b, h c, k d)) (zip i (zip a (zip b (zip c d))))"
proof -
  have e: "map_prod id (map_prod f (map_prod g (map_prod h k)))
      = (\<lambda>(i, a, b, c, d). (i, f a, g b, h c, k d))"
    by (auto simp: fun_eq_iff)
  show ?thesis
    unfolding zip_map_both [of h c k d]
      zip_map_both [of g b "map_prod h k" "zip c d"]
      zip_map_both [of f a "map_prod g (map_prod h k)" "zip b (zip c d)"]
      zip_map_right [of i "map_prod f (map_prod g (map_prod h k))" "zip a (zip b (zip c d))"]
      e
    by (rule refl)
qed

lemma normalize_sales_closed:
  assumes "cols_named (sales_resolved df) ''item'' = [its]"
    and "cols_named (sales_resolved df) ''customer'' = [cus]"
    and "cols_named (sales_resolved df) ''qty'' = [qs]"
    and "cols_named (sales_resolved df) ''unit_price'' = [ps]"
  shows "\<exists>out. normalize_sales_df parse num_str df = Inr out
     \<and> df_index out
         = keep (both_flags (map (text_cell num_str) its) (map (number_cell parse 1) qs)) (df_index df)
     \<and> df_columns out =
         [(''item'', keep (both_flags (map (text_cell num_str) its) (map (number_cell parse 1) qs))
                      (map (text_cell num_str) its)),
          (''qty'', keep (both_flags (map (text_cell num_str) its) (map (number_cell parse 1) qs))
                      (map (number_cell parse 1) qs)),
          (''unit_price'', keep (both_flags (map (text_cell num_str) its) (map (number_cell parse 1) qs))
                      (map (number_cell parse 0) ps)),
          (''customer'', keep (both_flags (map (text_cell num_str) its) (map (number_cell parse 1) qs))
                      (map (text_cell num_str) cus))]"
proof -
  from sales_coerce_closed [OF assms, of parse num_str]
  obtain cdf where run: "sales_coerce parse num_str (sales_resolved df) = Inr cdf"
    and idx: "df_index cdf = df_index (sales_resolved df)"
    and c: "cols_named cdf ''item'' = [map (text_cell num_str) its]"
      "cols_named cdf ''customer'' = [map (text_cell num_str) cus]"
      "cols_named cdf ''qty'' = [map (number_cell parse 1) qs]"
      "cols_named cdf ''unit_price'' = [map (number_cell parse 0) ps]"
    by blast
  have n: "list_all is_num (map (number_cell parse 1) qs)"
    by (simp add: list_all_iff number_cell_is_num)
  from sales_filters_closed [OF c n] run idx show ?thesis
    by (simp add: normalize_sales_df_def and_then_def index_sales_resolved)
qed

lemma sales_row_ok_fun:
  "(\<lambda>(i, a, b, r). len_positive a \<and> is_positive b) = sales_row_ok"
  by (auto simp: fun_eq_iff sales_row_ok_def)

lemma sales_row_coerced_fun:
  "(\<lambda>(i, a, b, c, d). (i, text_cell num_str a, number_cell parse 1 b, number_cell parse 0 c,
       text_cell num_str d)) = sales_row_coerced parse num_str"
  by (auto simp: fun_eq_iff sales_row_coerced_def)

lemma sales_row_ok_cells:
  "sales_row_ok r \<longleftrightarrow> (\<exists>i s x p cu. r = (i, Str s, Num x, p, cu) \<and> s \<noteq> [] \<and> 0 < x)"
proof -
  obtain i it q p cu where r: "r = (i, it, q, p, cu)"
    by (cases r) auto
  show ?thesis
    by (cases it; cases q) (simp_all add: r sales_row_ok_def len_positive_def is_positive_def)
qed

lemma normalize_sales_rows:
  assumes "cols_named (sales_resolved df) ''item'' = [its]"
    and "cols_named (sales_resolved df) ''customer'' = [cus]"
    and "cols_named (sales_resolved df) ''qty'' = [qs]"
    and "cols_named (sales_resolved df) ''unit_price'' = [ps]"
  shows "\<exists>out. normalize_sales_df parse num_str df = Inr out
     \<and> labels out = [''item'', ''qty'', ''unit_price'', ''customer'']
     \<and> sales_rows out
         = filter sales_row_ok
             (map (sales_row_coerced parse num_str) (sales_rows (sales_resolved df)))
     \<and> list_all (\<lambda>r. \<exists>i s x p cu. r = (i, Str s, Num x, p, cu) \<and> s \<noteq> [] \<and> 0 < x)
          (sales_rows out)"
proof -
  let ?F = "both_flags (map (text_cell num_str) its) (map (number_cell parse 1) qs)"
  from normalize_sales_closed [OF assms, of parse num_str]
  obtain out where run: "normalize_sales_df parse num_str df = Inr out"
    and idx: "df_index out = keep ?F (df_index df)"
    and cols: "df_columns out =
         [(''item'', keep ?F (map (text_cell num_str) its)),
          (''qty'', keep ?F (map (number_cell parse 1) qs)),
          (''unit_price'', keep ?F (map (number_cell parse 0) ps)),
          (''customer'', keep ?F (map (text_cell num_str) cus))]"
    by blast
  have lab: "labels out = [''item'', ''qty'', ''unit_price'', ''customer'']"
    by (simp add: labels_def cols)
  have c: "column out ''item'' = keep ?F (map (text_cell num_str) its)"
    "column out ''qty'' = keep ?F (map (number_cell parse 1) qs)"
    "column out ''unit_price'' = keep ?F (map (number_cell parse 0) ps)"
    "column out ''customer'' = keep ?F (map (text_cell num_str) cus)"
    by (simp_all add: column_def cols_named_def cols)
  have res: "sales_rows (sales_resolved df) = zip (df_index df) (zip its (zip qs (zip ps cus)))"
    by (simp add: sales_rows_def column_one [OF assms(1)] column_one [OF assms(2)]
        column_one [OF assms(3)] column_one [OF assms(4)] index_sales_resolved)
  have "sales_rows out
      = keep ?F (zip (df_index df) (zip (map (text_cell num_str) its)
          (zip (map (number_cell parse 1) qs)
            (zip (map (number_cell parse 0) ps) (map (text_cell num_str) cus)))))"
    by (simp only: sales_rows_def c idx keep_rows)
  also have "\<dots> = filter sales_row_ok
          (zip (df_index df) (zip (map (text_cell num_str) its)
          (zip (map (number_cell parse 1) qs)
            (zip (map (number_cell parse 0) ps) (map (text_cell num_str) cus)))))"
    by (simp only: keep_both_rows sales_row_ok_fun)
  also have "\<dots> = filter sales_row_ok
          (map (sales_row_coerced parse num_str) (sales_rows (sales_resolved df)))"
    by (simp only: map_rows sales_row_coerced_fun res)
  finally have rows: "sales_rows out = filter sales_row_ok
          (map (sales_row_coerced parse num_str) (sales_rows (sales_resolved df)))" .
  have "list_all sales_row_ok (sales_rows out)"
    by (simp add: rows list_all_iff)
  then have typed: "list_all (\<lambda>r. \<exists>i s x p cu. r = (i, Str s, Num x, p, cu) \<and> s \<noteq> [] \<and> 0 < x)
          (sales_rows out)"
    by (simp add: list_all_iff sales_row_ok_cells)
  from run lab rows typed show ?thesis by blast
qed

lemma bad_qty_resolved:
  "sales_resolved bad_qty_frame =
     \<lparr>df_index = [0, 1, 2],
      df_columns = [(''item'', [Str ''Sugar'', Str ''  '', Missing]),
                    (''qty'', [Str ''abc'', Str ''3'', Str ''4'']),
                    (''unit_price'', [Str ''50'', Str ''60'', Str ''x'']),
                    (''customer'', [Str [], Str [], Str []])]\<rparr>"
  by code_simp

lemma bad_qty_rows:
  "filter sales_row_ok
     (map (sales_row_coerced parse_digits print_any) (sales_rows (sales_resolved bad_qty_frame)))
   = [(0, Str ''Sugar'', Num 1, Num 50, Str []), (2, Str ''nan'', Num 4, Num 0, Str [])]"
  by code_simp











subsection \<open>Inversion of the steps\<close>

lemma lookup_sales_qty:
  assumes "(case lookup_target sales_mapping c of None \<Rightarrow> c | Some t \<Rightarrow> t) = ''qty''"
  shows "c \<in> set sales_qty_names"
  using assms
  by (auto simp: lookup_target_def sales_mapping_def sales_qty_names_def split: if_splits)

lemma qty_not_renamed:
  assumes "\<forall>h \<in> set (labels df). clean_col h \<notin> set sales_qty_names"
  shows "''qty'' \<notin> set (labels (rename_with_synonyms df sales_mapping))"
  using assms lookup_sales_qty by (auto simp: labels_rename)

lemma cols_named_ensure:
  "cols_named (ensure_column (c, v) df) c'
     = (if c' = c \<and> cols_named df c = [] then [replicate (length (df_index df)) v]
        else cols_named df c')"
  by (auto simp: ensure_column_def label_iff_named cols_named_setitem)

lemma assign_stripped_inv:
  "assign_stripped num_str c df = Inr df' \<Longrightarrow>
     \<exists>s. cols_named df c = [s] \<and> df' = df_setitem df c (map (text_cell num_str) s)"
  by (auto simp: assign_stripped_def df_getitem_def and_then_def str_accessor_def sel_map_def
      text_cell_fun comp_def split: list.splits)

lemma assign_stripped_filled_inv:
  "assign_stripped_filled num_str c df = Inr df' \<Longrightarrow>
     \<exists>s. cols_named df c = [s] \<and> df' = df_setitem df c (map (text_cell num_str) s)"
  by (auto simp: assign_stripped_filled_def df_getitem_def and_then_def str_accessor_def
      sel_map_def text_cell_fun comp_def fillna_after_astype split: list.splits)

lemma assign_numeric_inv:
  "assign_numeric parse d c df = Inr df' \<Longrightarrow>
     \<exists>s. cols_named df c = [s] \<and> df' = df_setitem df c (map (number_cell parse d) s)"
  by (auto simp: assign_numeric_def df_getitem_def and_then_def to_numeric_def
      number_cell_fun comp_def split: list.splits)

subsection \<open>A frame without a quantity column\<close>

lemma qty_default:
  assumes "\<forall>h \<in> set (labels df). clean_col h \<notin> set sales_qty_names"
  shows "cols_named (sales_resolved df) ''qty'' = [replicate (length (df_index df)) (Num 0)]"
proof -
  have "cols_named (rename_with_synonyms df sales_mapping) ''qty'' = []"
    using qty_not_renamed [OF assms] by (simp add: label_iff_named)
  then show ?thesis
    by (simp add: sales_resolved_def cols_named_ensure index_ensure index_rename)
qed

lemma sales_coerce_inv:
  assumes "sales_coerce parse num_str df = Inr cdf"
  shows "\<exists>its cus qs ps. cols_named df ''item'' = [its] \<and> cols_named df ''customer'' = [cus]
     \<and> cols_named df ''qty'' = [qs] \<and> cols_named df ''unit_price'' = [ps]"
proof -
  from assms obtain df1 df2 df3 where
    s1: "assign_stripped num_str ''item'' df = Inr df1" and
    s2: "assign_stripped_filled num_str ''customer'' df1 = Inr df2" and
    s3: "assign_numeric parse 1 ''qty'' df2 = Inr df3" and
    s4: "assign_numeric parse 0 ''unit_price'' df3 = Inr cdf"
    by (auto simp: sales_coerce_def and_then_def split: sum.splits)
  from assign_stripped_inv [OF s1] obtain its where
    i: "cols_named df ''item'' = [its]" and d1: "df1 = df_setitem df ''item'' (map (text_cell num_str) its)"
    by blast
  from assign_stripped_filled_inv [OF s2] obtain cus where
    c: "cols_named df1 ''customer'' = [cus]"
    and d2: "df2 = df_setitem df1 ''customer'' (map (text_cell num_str) cus)"
    by blast
  from assign_numeric_inv [OF s3] obtain qs where
    q: "cols_named df2 ''qty'' = [qs]" and d3: "df3 = df_setitem df2 ''qty'' (map (number_cell parse 1) qs)"
    by blast
  from assign_numeric_inv [OF s4] obtain ps where
    p: "cols_named df3 ''unit_price'' = [ps]"
    by blast
  from c have c': "cols_named df ''customer'' = [cus]"
    by (simp add: d1 cols_named_setitem)
  from q have q': "cols_named df ''qty'' = [qs]"
    by (simp add: d2 d1 cols_named_setitem)
  from p have p': "cols_named df ''unit_price'' = [ps]"
    by (simp add: d3 d2 d1 cols_named_setitem)
  from i c' q' p' show ?thesis by blast
qed

lemma keep_none_positive:
  assumes "list_all (\<lambda>n. \<not> is_positive n) ns"
  shows "keep (both_flags ts ns) xs = []"
proof -
  have "\<And>f. f \<in> set (both_flags ts ns) \<Longrightarrow> \<not> f"
    using assms by (auto simp: both_flags_def list_all_iff dest: set_zip_rightD)
  then have "\<And>p. p \<in> set (zip (both_flags ts ns) xs) \<Longrightarrow> \<not> fst p"
    by (metis set_zip_leftD prod.collapse)
  then show ?thesis
    by (simp add: keep_def filter_empty_conv)
qed

lemma no_qty_normalized:
  assumes "\<forall>h \<in> set (labels df). clean_col h \<notin> set sales_qty_names"
    and "normalize_sales_df parse num_str df = Inr out"
  shows "df_index out = [] \<and> sales_rows out = [] \<and> list_all (\<lambda>p. snd p = []) (df_columns out)"
proof -
  from assms(2) obtain cdf where "sales_coerce parse num_str (sales_resolved df) = Inr cdf"
    by (auto simp: normalize_sales_df_def and_then_def split: sum.splits)
  from sales_coerce_inv [OF this] obtain its cus qs ps where
    u: "cols_named (sales_resolved df) ''item'' = [its]"
      "cols_named (sales_resolved df) ''customer'' = [cus]"
      "cols_named (sales_resolved df) ''qty'' = [qs]"
      "cols_named (sales_resolved df) ''unit_price'' = [ps]"
    by blast
  from u(3) qty_default [OF assms(1)] have qs: "qs = replicate (length (df_index df)) (Num 0)"
    by simp
  have "list_all (\<lambda>n. \<not> is_positive n) (map (number_cell parse 1) qs)"
    by (simp add: qs list_all_iff number_cell_def to_numeric_cell_def fillna_def is_positive_def)
  then have k: "\<And>xs. keep (both_flags (map (text_cell num_str) its) (map (number_cell parse 1) qs)) xs = []"
    by (rule keep_none_positive)
  from normalize_sales_closed [OF u, of parse num_str] assms(2)
  have "df_index out = [] \<and> df_columns out =
      [(''item'', []), (''qty'', []), (''unit_price'', []), (''customer'', [])]"
    by (auto simp: k)
  then show ?thesis
    by (simp add: sales_rows_def)
qed

text \<open>
  Claim C10. When no header of the input cleans to \<^verbatim>\<open>qty\<close> or to one of its
  synonyms, the normalizer's output (when it returns one) has no row, whatever the
  item and price columns hold, and the bulk import of sales applies nothing: the
  store is unchanged and the number of imported sales, when one is reported, is 0.
\<close>

theorem no_qty_column_imports_nothing:
  assumes "\<forall>h \<in> set (labels df). clean_col h \<notin> set sales_qty_names"
  shows "(\<forall>out. normalize_sales_df parse num_str df = Inr out \<longrightarrow>
            df_index out = [] \<and> sales_rows out = [] \<and> list_all (\<lambda>p. snd p = []) (df_columns out))
       \<and> snd (process_csv_upload_sales fails today parse num_str df db) = db
       \<and> (\<forall>n. fst (process_csv_upload_sales fails today parse num_str df db) = Inr n \<longrightarrow> n = 0)"
proof -
  have 1: "\<forall>out. normalize_sales_df parse num_str df = Inr out \<longrightarrow>
            df_index out = [] \<and> sales_rows out = [] \<and> list_all (\<lambda>p. snd p = []) (df_columns out)"
    using no_qty_normalized [OF assms] by blast
  have 2: "snd (process_csv_upload_sales fails today parse num_str df db) = db
       \<and> (\<forall>n. fst (process_csv_upload_sales fails today parse num_str df db) = Inr n \<longrightarrow> n = 0)"
  proof (cases "normalize_sales_df parse num_str df")
    case (Inl e)
    then show ?thesis by (simp add: process_csv_upload_sales_def)
  next
    case (Inr out)
    with 1 have "sales_rows out = []" by blast
    with Inr show ?thesis by (simp add: process_csv_upload_sales_def)
  qed
  from 1 2 show ?thesis by blast
qed

lemma no_qty_frame_run:
  "normalize_sales_df parse_digits print_any no_qty_frame =
     Inr \<lparr>df_index = [],
          df_columns = [(''item'', []), (''qty'', []), (''unit_price'', []), (''customer'', [])]\<rparr>"
  by code_simp

lemma no_qty_frame_headers:
  "\<forall>h \<in> set (labels no_qty_frame). clean_col h \<notin> set sales_qty_names"
  by code_simp

theorem no_qty_column_imports_nothing_witness:
  "list_all (\<lambda>h. clean_col h \<notin> set sales_qty_names) (labels no_qty_frame)
   \<and> normalize_sales_df parse_digits print_any no_qty_frame =
       Inr \<lparr>df_index = [],
            df_columns = [(''item'', []), (''qty'', []), (''unit_price'', []), (''customer'', [])]\<rparr>
   \<and> process_csv_upload_sales stmt_ok 739001 parse_digits print_any no_qty_frame sugar_store
       = (Inr 0, sugar_store)"
proof -
  note t = no_qty_column_imports_nothing [OF no_qty_frame_headers,
      of parse_digits print_any stmt_ok 739001 sugar_store]
  have r: "process_csv_upload_sales stmt_ok 739001 parse_digits print_any no_qty_frame sugar_store
      = (Inr 0, snd (process_csv_upload_sales stmt_ok 739001 parse_digits print_any no_qty_frame sugar_store))"
    by (simp add: process_csv_upload_sales_def no_qty_frame_run sales_rows_def column_def cols_named_def)
  with t have "process_csv_upload_sales stmt_ok 739001 parse_digits print_any no_qty_frame sugar_store
       = (Inr 0, sugar_store)"
    by simp
  with no_qty_frame_headers no_qty_frame_run show ?thesis
    by (simp add: list_all_iff)
qed

subsection \<open>The expenses normalizer\<close>

lemma index_expenses_resolved: "df_index (expenses_resolved df) = df_index df"
  by (simp add: expenses_resolved_def index_ensure index_rename)

lemma expenses_coerce_closed:
  assumes "cols_named df ''category'' = [cats]" and "cols_named df ''vendor'' = [vens]"
    and "cols_named df ''notes'' = [nts]" and "cols_named df ''amount'' = [ams]"
  shows "\<exists>cdf. expenses_coerce parse num_str df = Inr cdf
     \<and> df_index cdf = df_index df
     \<and> cols_named cdf ''category'' = [map (text_cell num_str) cats]
     \<and> cols_named cdf ''vendor'' = [map (text_cell num_str) vens]
     \<and> cols_named cdf ''amount'' = [map (number_cell parse 0) ams]
     \<and> cols_named cdf ''notes'' = [map (text_cell num_str) nts]"
proof -
  define df1 where "df1 = df_setitem df ''category'' (map (text_cell num_str) cats)"
  define df2 where "df2 = df_setitem df1 ''vendor'' (map (text_cell num_str) vens)"
  define df3 where "df3 = df_setitem df2 ''notes'' (map (text_cell num_str) nts)"
  define df4 where "df4 = df_setitem df3 ''amount'' (map (number_cell parse 0) ams)"
  have s1: "assign_stripped num_str ''category'' df = Inr df1"
    unfolding df1_def by (rule assign_stripped_one [OF assms(1)])
  have c1: "cols_named df1 ''vendor'' = [vens]"
    using assms by (simp add: df1_def cols_named_setitem)
  have s2: "assign_stripped_filled num_str ''vendor'' df1 = Inr df2"
    unfolding df2_def by (rule assign_stripped_filled_one [OF c1])
  have c2: "cols_named df2 ''notes'' = [nts]"
    using assms by (simp add: df2_def df1_def cols_named_setitem)
  have s3: "assign_stripped_filled num_str ''notes'' df2 = Inr df3"
    unfolding df3_def by (rule assign_stripped_filled_one [OF c2])
  have c3: "cols_named df3 ''amount'' = [ams]"
    using assms by (simp add: df3_def df2_def df1_def cols_named_setitem)
  have s4: "assign_numeric parse 0 ''amount'' df3 = Inr df4"
    unfolding df4_def by (rule assign_numeric_one [OF c3])
  have run: "expenses_coerce parse num_str df = Inr df4"
    by (simp add: expenses_coerce_def and_then_def s1 s2 s3 s4)
  have "df_index df4 = df_index df"
    by (simp add: df4_def df3_def df2_def df1_def index_setitem)
  moreover have "cols_named df4 ''category'' = [map (text_cell num_str) cats]"
    using assms by (simp add: df4_def df3_def df2_def df1_def cols_named_setitem)
  moreover have "cols_named df4 ''vendor'' = [map (text_cell num_str) vens]"
    using assms by (simp add: df4_def df3_def df2_def df1_def cols_named_setitem)
  moreover have "cols_named df4 ''amount'' = [map (number_cell parse 0) ams]"
    using assms by (simp add: df4_def df3_def df2_def df1_def cols_named_setitem)
  moreover have "cols_named df4 ''notes'' = [map (text_cell num_str) nts]"
    using assms by (simp add: df4_def df3_def df2_def df1_def cols_named_setitem)
  ultimately show ?thesis using run by blast
qed

lemma expenses_filters_closed:
  assumes "cols_named cdf ''category'' = [cats]" and "cols_named cdf ''vendor'' = [vens]"
    and "cols_named cdf ''amount'' = [ams]" and "cols_named cdf ''notes'' = [nts]"
    and "list_all is_num ams"
  shows "\<exists>out. expenses_filters cdf = Inr out
     \<and> df_index out = keep (both_flags cats ams) (df_index cdf)
     \<and> df_columns out = [(''category'', keep (both_flags cats ams) cats),
                          (''vendor'', keep (both_flags cats ams) vens),
                          (''amount'', keep (both_flags cats ams) ams),
                          (''notes'', keep (both_flags cats ams) nts)]"
proof -
  let ?f1 = "map len_positive cats"
  define df1 where "df1 = df_filter ?f1 cdf"
  let ?f2 = "map is_positive (keep ?f1 ams)"
  define df2 where "df2 = df_filter ?f2 df1"
  have s1: "keep_nonblank ''category'' cdf = Inr df1"
    unfolding df1_def by (rule keep_nonblank_one [OF assms(1)])
  have q1: "cols_named df1 ''amount'' = [keep ?f1 ams]"
    by (simp add: df1_def cols_named_filter assms)
  have "list_all is_num (keep ?f1 ams)"
    by (rule keep_all [OF assms(5)])
  with q1 have s2: "keep_positive ''amount'' df1 = Inr df2"
    unfolding df2_def by (rule keep_positive_one)
  have cols: "cols_named df2 ''category'' = [keep (both_flags cats ams) cats]"
    "cols_named df2 ''vendor'' = [keep (both_flags cats ams) vens]"
    "cols_named df2 ''amount'' = [keep (both_flags cats ams) ams]"
    "cols_named df2 ''notes'' = [keep (both_flags cats ams) nts]"
    by (simp_all add: df2_def df1_def cols_named_filter assms keep_both)
  have idx: "df_index df2 = keep (both_flags cats ams) (df_index cdf)"
    by (simp add: df2_def df1_def index_filter keep_both)
  from df_select_four [OF cols]
  obtain out where "df_select df2 [''category'', ''vendor'', ''amount'', ''notes''] = Inr out"
    and "df_index out = df_index df2"
    and "df_columns out = [(''category'', keep (both_flags cats ams) cats),
                          (''vendor'', keep (both_flags cats ams) vens),
                          (''amount'', keep (both_flags cats ams) ams),
                          (''notes'', keep (both_flags cats ams) nts)]"
    by blast
  with idx show ?thesis
    by (simp add: expenses_filters_def and_then_def s1 s2)
qed

lemma expenses_row_ok_fun:
  "(\<lambda>(i, a, b, r). len_positive a \<and> is_positive b) = expenses_row_ok"
  by (auto simp: fun_eq_iff expenses_row_ok_def)

lemma expenses_row_coerced_fun:
  "(\<lambda>(i, a, b, c, d). (i, text_cell num_str a, number_cell parse 0 b, text_cell num_str c,
       text_cell num_str d)) = expenses_row_coerced parse num_str"
  by (auto simp: fun_eq_iff expenses_row_coerced_def)

lemma normalize_expenses_rows:
  assumes "cols_named (expenses_resolved df) ''category'' = [cats]"
    and "cols_named (expenses_resolved df) ''vendor'' = [vens]"
    and "cols_named (expenses_resolved df) ''notes'' = [nts]"
    and "cols_named (expenses_resolved df) ''amount'' = [ams]"
  shows "\<exists>out. normalize_expenses_df parse num_str df = Inr out
     \<and> labels out = [''category'', ''vendor'', ''amount'', ''notes'']
     \<and> expenses_rows out
         = filter expenses_row_ok
             (map (expenses_row_coerced parse num_str) (expenses_rows (expenses_resolved df)))"
proof -
  let ?F = "both_flags (map (text_cell num_str) cats) (map (number_cell parse 0) ams)"
  from expenses_coerce_closed [OF assms, of parse num_str]
  obtain cdf where run: "expenses_coerce parse num_str (expenses_resolved df) = Inr cdf"
    and cidx: "df_index cdf = df_index (expenses_resolved df)"
    and c: "cols_named cdf ''category'' = [map (text_cell num_str) cats]"
      "cols_named cdf ''vendor'' = [map (text_cell num_str) vens]"
      "cols_named cdf ''amount'' = [map (number_cell parse 0) ams]"
      "cols_named cdf ''notes'' = [map (text_cell num_str) nts]"
    by blast
  have n: "list_all is_num (map (number_cell parse 0) ams)"
    by (simp add: list_all_iff number_cell_is_num)
  from expenses_filters_closed [OF c n] run cidx
  obtain out where out: "normalize_expenses_df parse num_str df = Inr out"
    and idx: "df_index out = keep ?F (df_index df)"
    and cols: "df_columns out =
         [(''category'', keep ?F (map (text_cell num_str) cats)),
          (''vendor'', keep ?F (map (text_cell num_str) vens)),
          (''amount'', keep ?F (map (number_cell parse 0) ams)),
          (''notes'', keep ?F (map (text_cell num_str) nts))]"
    by (auto simp: normalize_expenses_df_def and_then_def index_expenses_resolved)
  have lab: "labels out = [''category'', ''vendor'', ''amount'', ''notes'']"
    by (simp add: labels_def cols)
  have k: "column out ''category'' = keep ?F (map (text_cell num_str) cats)"
    "column out ''vendor'' = keep ?F (map (text_cell num_str) vens)"
    "column out ''amount'' = keep ?F (map (number_cell parse 0) ams)"
    "column out ''notes'' = keep ?F (map (text_cell num_str) nts)"
    by (simp_all add: column_def cols_named_def cols)
  have res: "expenses_rows (expenses_resolved df)
      = zip (df_index df) (zip cats (zip ams (zip vens nts)))"
    by (simp add: expenses_rows_def column_one [OF assms(1)] column_one [OF assms(2)]
        column_one [OF assms(3)] column_one [OF assms(4)] index_expenses_resolved)
  have "expenses_rows out
      = keep ?F (zip (df_index df) (zip (map (text_cell num_str) cats)
          (zip (map (number_cell parse 0) ams)
            (zip (map (text_cell num_str) vens) (map (text_cell num_str) nts)))))"
    by (simp only: expenses_rows_def k idx keep_rows)
  also have "\<dots> = filter expenses_row_ok
          (zip (df_index df) (zip (map (text_cell num_str) cats)
          (zip (map (number_cell parse 0) ams)
            (zip (map (text_cell num_str) vens) (map (text_cell num_str) nts)))))"
    by (simp only: keep_both_rows expenses_row_ok_fun)
  also have "\<dots> = filter expenses_row_ok
          (map (expenses_row_coerced parse num_str) (expenses_rows (expenses_resolved df)))"
    by (simp only: map_rows expenses_row_coerced_fun res)
  finally show ?thesis using out lab by blast
qed

subsection \<open>Values that do not parse\<close>

lemma number_cell_unparseable: "unparseable parse c \<Longrightarrow> number_cell parse d c = Num d"
  by (simp add: unparseable_def number_cell_def fillna_def)

text \<open>
  Claim C3, as stated, fails: the quantity \<^verbatim>\<open>abc\<close> of the first row does not parse,
  and the sales normalizer returns the row with quantity 1, not 0; the row is kept.
\<close>

theorem unparseable_qty_counterexample:
  "unparseable parse_digits (Str ''abc'')
   \<and> normalize_sales_df parse_digits print_any bad_qty_frame =
       Inr \<lparr>df_index = [0, 2],
            df_columns = [(''item'', [Str ''Sugar'', Str ''nan'']), (''qty'', [Num 1, Num 4]),
                          (''unit_price'', [Num 50, Num 0]), (''customer'', [Str [], Str []])]\<rparr>"
  by code_simp

text \<open>
  Claim C3, amended. The sales normalizer replaces a quantity that does not parse
  by 1, so that the row is kept exactly when its item is not empty after stripping,
  and a unit price that does not parse by 0. The expenses normalizer replaces an
  amount that does not parse by 0, and the row is dropped by the filter on the
  amount. Each normalizer returns the coerced rows that pass its filter.
\<close>

theorem unparseable_numbers_defaulted:
  assumes "cols_named (sales_resolved s) ''item'' = [its]"
    and "cols_named (sales_resolved s) ''customer'' = [cus]"
    and "cols_named (sales_resolved s) ''qty'' = [qs]"
    and "cols_named (sales_resolved s) ''unit_price'' = [ps]"
    and "cols_named (expenses_resolved e) ''category'' = [cats]"
    and "cols_named (expenses_resolved e) ''vendor'' = [vens]"
    and "cols_named (expenses_resolved e) ''notes'' = [nts]"
    and "cols_named (expenses_resolved e) ''amount'' = [ams]"
  shows "(\<exists>out. normalize_sales_df parse num_str s = Inr out
          \<and> sales_rows out = filter sales_row_ok
                (map (sales_row_coerced parse num_str) (sales_rows (sales_resolved s))))
       \<and> (\<forall>i it q p cu. unparseable parse q \<longrightarrow>
             sales_row_coerced parse num_str (i, it, q, p, cu)
               = (i, text_cell num_str it, Num 1, number_cell parse 0 p, text_cell num_str cu)
           \<and> sales_row_ok (sales_row_coerced parse num_str (i, it, q, p, cu))
               = len_positive (text_cell num_str it))
       \<and> (\<forall>i it q p cu. unparseable parse p \<longrightarrow>
             sales_row_coerced parse num_str (i, it, q, p, cu)
               = (i, text_cell num_str it, number_cell parse 1 q, Num 0, text_cell num_str cu))
       \<and> (\<exists>out. normalize_expenses_df parse num_str e = Inr out
          \<and> expenses_rows out = filter expenses_row_ok
                (map (expenses_row_coerced parse num_str) (expenses_rows (expenses_resolved e))))
       \<and> (\<forall>i cat am ven nt. unparseable parse am \<longrightarrow>
             expenses_row_coerced parse num_str (i, cat, am, ven, nt)
               = (i, text_cell num_str cat, Num 0, text_cell num_str ven, text_cell num_str nt)
           \<and> \<not> expenses_row_ok (expenses_row_coerced parse num_str (i, cat, am, ven, nt)))"
proof -
  from normalize_sales_rows [OF assms(1-4), of parse num_str]
  have 1: "\<exists>out. normalize_sales_df parse num_str s = Inr out
          \<and> sales_rows out = filter sales_row_ok
                (map (sales_row_coerced parse num_str) (sales_rows (sales_resolved s)))"
    by blast
  have 2: "\<forall>i it q p cu. unparseable parse q \<longrightarrow>
             sales_row_coerced parse num_str (i, it, q, p, cu)
               = (i, text_cell num_str it, Num 1, number_cell parse 0 p, text_cell num_str cu)
           \<and> sales_row_ok (sales_row_coerced parse num_str (i, it, q, p, cu))
               = len_positive (text_cell num_str it)"
    by (simp add: sales_row_coerced_def sales_row_ok_def number_cell_unparseable is_positive_def)
  have 3: "\<forall>i it q p cu. unparseable parse p \<longrightarrow>
             sales_row_coerced parse num_str (i, it, q, p, cu)
               = (i, text_cell num_str it, number_cell parse 1 q, Num 0, text_cell num_str cu)"
    by (simp add: sales_row_coerced_def number_cell_unparseable)
  from normalize_expenses_rows [OF assms(5-8), of parse num_str]
  have 4: "\<exists>out. normalize_expenses_df parse num_str e = Inr out
          \<and> expenses_rows out = filter expenses_row_ok
                (map (expenses_row_coerced parse num_str) (expenses_rows (expenses_resolved e)))"
    by blast
  have 5: "\<forall>i cat am ven nt. unparseable parse am \<longrightarrow>
             expenses_row_coerced parse num_str (i, cat, am, ven, nt)
               = (i, text_cell num_str cat, Num 0, text_cell num_str ven, text_cell num_str nt)
           \<and> \<not> expenses_row_ok (expenses_row_coerced parse num_str (i, cat, am, ven, nt))"
    by (simp add: expenses_row_coerced_def expenses_row_ok_def number_cell_unparseable
        is_positive_def)
  from 1 2 3 4 5 show ?thesis by blast
qed

lemma bad_amount_resolved:
  "expenses_resolved bad_amount_frame =
     \<lparr>df_index = [0, 1],
      df_columns = [(''category'', [Str ''Fuel'', Str ''Rent'']),
                    (''amount'', [Str ''abc'', Str ''12'']),
                    (''vendor'', [Str [], Str []]),
                    (''notes'', [Str [], Str []])]\<rparr>"
  by code_simp

lemma bad_amount_rows:
  "filter expenses_row_ok
     (map (expenses_row_coerced parse_digits print_any)
        (expenses_rows (expenses_resolved bad_amount_frame)))
   = [(1, Str ''Rent'', Num 12, Str [], Str [])]"
  by code_simp

lemma abc_unparseable: "unparseable parse_digits (Str ''abc'')"
  by code_simp

theorem unparseable_numbers_defaulted_witness:
  "unparseable parse_digits (Str ''abc'')
   \<and> cols_named (sales_resolved bad_qty_frame) ''qty'' = [[Str ''abc'', Str ''3'', Str ''4'']]
   \<and> cols_named (expenses_resolved bad_amount_frame) ''amount'' = [[Str ''abc'', Str ''12'']]
   \<and> (\<exists>out. normalize_sales_df parse_digits print_any bad_qty_frame = Inr out
        \<and> sales_rows out
            = [(0, Str ''Sugar'', Num 1, Num 50, Str []), (2, Str ''nan'', Num 4, Num 0, Str [])])
   \<and> sales_row_coerced parse_digits print_any (0, Str ''Sugar'', Str ''abc'', Str ''50'', Str [])
        = (0, text_cell print_any (Str ''Sugar''), Num 1, number_cell parse_digits 0 (Str ''50''),
           text_cell print_any (Str []))
   \<and> (\<exists>out. normalize_expenses_df parse_digits print_any bad_amount_frame = Inr out
        \<and> expenses_rows out = [(1, Str ''Rent'', Num 12, Str [], Str [])])
   \<and> \<not> expenses_row_ok
          (expenses_row_coerced parse_digits print_any (0, Str ''Fuel'', Str ''abc'', Str [], Str []))"
proof -
  have hs: "cols_named (sales_resolved bad_qty_frame) ''item'' = [[Str ''Sugar'', Str ''  '', Missing]]"
    "cols_named (sales_resolved bad_qty_frame) ''customer'' = [[Str [], Str [], Str []]]"
    "cols_named (sales_resolved bad_qty_frame) ''qty'' = [[Str ''abc'', Str ''3'', Str ''4'']]"
    "cols_named (sales_resolved bad_qty_frame) ''unit_price'' = [[Str ''50'', Str ''60'', Str ''x'']]"
    by (simp_all add: bad_qty_resolved cols_named_def)
  have he: "cols_named (expenses_resolved bad_amount_frame) ''category'' = [[Str ''Fuel'', Str ''Rent'']]"
    "cols_named (expenses_resolved bad_amount_frame) ''vendor'' = [[Str [], Str []]]"
    "cols_named (expenses_resolved bad_amount_frame) ''notes'' = [[Str [], Str []]]"
    "cols_named (expenses_resolved bad_amount_frame) ''amount'' = [[Str ''abc'', Str ''12'']]"
    by (simp_all add: bad_amount_resolved cols_named_def)
  note t = unparseable_numbers_defaulted [OF hs he, of parse_digits print_any]
  from t have a: "\<exists>out. normalize_sales_df parse_digits print_any bad_qty_frame = Inr out
        \<and> sales_rows out
            = [(0, Str ''Sugar'', Num 1, Num 50, Str []), (2, Str ''nan'', Num 4, Num 0, Str [])]"
    unfolding bad_qty_rows by blast
  from t have b: "\<exists>out. normalize_expenses_df parse_digits print_any bad_amount_frame = Inr out
        \<and> expenses_rows out = [(1, Str ''Rent'', Num 12, Str [], Str [])]"
    unfolding bad_amount_rows by blast
  from t abc_unparseable
  have c: "sales_row_coerced parse_digits print_any (0, Str ''Sugar'', Str ''abc'', Str ''50'', Str [])
        = (0, text_cell print_any (Str ''Sugar''), Num 1, number_cell parse_digits 0 (Str ''50''),
           text_cell print_any (Str []))"
    by blast
  from t abc_unparseable
  have d: "\<not> expenses_row_ok
          (expenses_row_coerced parse_digits print_any (0, Str ''Fuel'', Str ''abc'', Str [], Str []))"
    by blast
  from abc_unparseable hs(3) he(4) a b c d show ?thesis by blast
qed

subsection \<open>Two columns for one target\<close>

text \<open>
  When two columns are renamed to \<^verbatim>\<open>item\<close>, \<^verbatim>\<open>df["item"]\<close> is a frame, which has
  no accessor \<^verbatim>\<open>.str\<close>: the normalizer raises.
\<close>

lemma duplicate_item_raises:
  assumes "cols_named (sales_resolved df) ''item'' = a # b # rest"
  shows "normalize_sales_df parse num_str df = Inl AttributeError"
  using assms
  by (simp add: normalize_sales_df_def sales_coerce_def assign_stripped_def df_getitem_def
      and_then_def sel_map_def str_accessor_def)

text \<open>
  Claim C6 at a concrete input: the headers \<^verbatim>\<open>Product\<close> and \<^verbatim>\<open>Name\<close> both resolve
  to \<^verbatim>\<open>item\<close>; the normalizer raises \<^verbatim>\<open>AttributeError\<close> and the import applies
  no row, where the claim has the first column win and the import go on.
\<close>

theorem duplicate_item_columns_raise:
  "labels (rename_with_synonyms two_items_frame sales_mapping) = [''item'', ''item'', ''qty'']
   \<and> normalize_sales_df parse_digits print_any two_items_frame = Inl AttributeError
   \<and> process_csv_upload_sales stmt_ok 739001 parse_digits print_any two_items_frame sugar_store
       = (Inl AttributeError, sugar_store)"
  by code_simp

end
